theory Spec2Isabelle
  imports Complex_Main
begin

section \<open>Invoice renderer: text wrapping, totals and page layout\<close>

text \<open>
  A shallow embedding of the invoice service's layout engine (the server file under
  \<^verbatim>\<open>src/unnamed/part_000\<close>). Conventions of the embedding:
  \<^item> a JavaScript number is a rational (\<^typ>\<open>rat\<close>); NaN and the infinities are
    outside the model. The layout and \<open>computeTotals\<close> calculate on the exact values;
    \<open>computeTotalsDouble\<close> rounds every sum and product to the nearest double, as the
    source's arithmetic does, and is the one to read where the last bits of a total
    matter;
  \<^item> a JavaScript string is a \<^typ>\<open>string\<close>; the empty string is the only falsy one;
  \<^item> a property that may be missing (\<^verbatim>\<open>undefined\<close>) is an \<^typ>\<open>'a option\<close>;
  \<^item> the page is the list of drawing calls made on it, in call order;
  \<^item> the font's metrics (\<^verbatim>\<open>widthOfTextAtSize\<close>) belong to the PDF library and
    are a parameter of every function that measures text; a width is a rational, so
    that a font answering NaN is outside the model too;
  \<^item> a function that draws returns the calls it makes, and the next cursor where the
    source returns one; the \<^verbatim>\<open>page\<close> argument is left out;
  \<^item> a render that throws, or that divides by zero, ends in an \<open>error\<close> value.

  Names are the source's, but for those that HOL or Isabelle reserve or that are taken
  here: the parameters \<^verbatim>\<open>top\<close>, \<^verbatim>\<open>text\<close> and \<^verbatim>\<open>terms\<close> are written \<open>topY\<close>, \<open>txt\<close>
  and \<open>termsText\<close>, and the invoice's field \<^verbatim>\<open>declaration\<close> is written
  \<open>declarationText\<close>. A record field whose name another record already uses carries
  its record's name in front (\<open>partyName\<close>, \<open>bankName\<close>, \<open>itemHsn\<close>,
  \<open>totalsRoundOff\<close>).
\<close>

subsection \<open>Strings\<close>

text \<open>\<^verbatim>\<open>String.prototype.split(sep)\<close> for a one-character separator.\<close>

fun split :: "char \<Rightarrow> string \<Rightarrow> string list" where
  "split sep [] = [[]]"
| "split sep (c # cs) =
     (if c = sep then [] # split sep cs
      else (case split sep cs of
              [] \<Rightarrow> [[c]]
            | w # ws \<Rightarrow> (c # w) # ws))"

text \<open>
  The white space and line terminator characters that \<^verbatim>\<open>String.prototype.trim\<close>
  removes, as far as they are characters of \<^typ>\<open>char\<close>: TAB, LF, VT, FF, CR, SP, NBSP.
\<close>

definition isWhiteSpace :: "char \<Rightarrow> bool" where
  "isWhiteSpace c =
     (c = CHR 0x09 \<or> c = CHR 0x0A \<or> c = CHR 0x0B \<or> c = CHR 0x0C \<or> c = CHR 0x0D
      \<or> c = CHR 0x20 \<or> c = CHR 0xA0)"

definition trim :: "string \<Rightarrow> string" where
  "trim s = rev (dropWhile isWhiteSpace (rev (dropWhile isWhiteSpace s)))"

text \<open>Truthiness of a string: every string but the empty one.\<close>

definition truthy :: "string \<Rightarrow> bool" where
  "truthy s = (s \<noteq> [])"

subsection \<open>Fonts and text wrapping\<close>

text \<open>
  A font handle of the PDF library; the only method the layout code calls on it is
  \<^verbatim>\<open>widthOfTextAtSize(text, size)\<close>.
\<close>

record font =
  widthOfTextAtSize :: "string \<Rightarrow> rat \<Rightarrow> rat"

text \<open>
  The inner loop of \<^verbatim>\<open>wrapText\<close> over the words of one paragraph; the state is
  \<^verbatim>\<open>lines\<close> and \<^verbatim>\<open>currentLine\<close>.
\<close>

fun wrapWords :: "font \<Rightarrow> rat \<Rightarrow> rat \<Rightarrow> string list \<Rightarrow> string list \<Rightarrow> string
    \<Rightarrow> string list \<times> string" where
  "wrapWords fnt fontSize maxWidth [] lines currentLine = (lines, currentLine)"
| "wrapWords fnt fontSize maxWidth (word # words) lines currentLine =
     (let testLine = (if truthy currentLine then currentLine @ '' '' @ word else word) in
      if truthy (trim testLine) then
        (if widthOfTextAtSize fnt testLine fontSize > maxWidth \<and> truthy currentLine
         then wrapWords fnt fontSize maxWidth words (lines @ [currentLine]) word
         else wrapWords fnt fontSize maxWidth words lines testLine)
      else wrapWords fnt fontSize maxWidth words lines currentLine)"

text \<open>The body of the outer loop: the lines one paragraph contributes.\<close>

definition wrapParagraph :: "font \<Rightarrow> rat \<Rightarrow> rat \<Rightarrow> string \<Rightarrow> string list" where
  "wrapParagraph fnt fontSize maxWidth paragraph =
     (case wrapWords fnt fontSize maxWidth (split CHR '' '' paragraph) [] [] of
        (lines, currentLine) \<Rightarrow>
          if truthy currentLine then lines @ [currentLine] else lines)"

definition wrapText :: "string \<Rightarrow> rat \<Rightarrow> font \<Rightarrow> rat \<Rightarrow> string list" where
  "wrapText txt maxWidth fnt fontSize =
     (let paragraphs = split CHR 0x0A txt;
          allLines = foldl (\<lambda>allLines paragraph.
                        allLines @ wrapParagraph fnt fontSize maxWidth paragraph)
                      [] paragraphs
      in if length allLines > 0 then allLines else [''''])"

subsection \<open>Numbers as text\<close>

text \<open>
  \<^verbatim>\<open>Number.prototype.toString\<close> prints the shortest decimal that reads back as the
  same binary number, which an exact rational does not determine; the functions that
  need it take it as the parameter \<open>numberToString\<close>.
\<close>

text \<open>The decimal digits of a natural number.\<close>

fun digitsOf :: "nat \<Rightarrow> string" where
  "digitsOf n =
     (if n < 10 then [''0123456789'' ! n]
      else digitsOf (n div 10) @ [''0123456789'' ! (n mod 10)])"

declare digitsOf.simps [simp del]

text \<open>
  \<^verbatim>\<open>Number.prototype.toFixed(f)\<close> as ECMAScript defines it on the exact value of the
  number: the sign is split off, \<open>n\<close> is the integer nearest to \<open>x * 10^f\<close> (the larger
  one at a tie), its digits are padded with zeros to \<open>f + 1\<close> places and the point is
  put before the last \<open>f\<close>. From \<open>10^21\<close> on the result is the number's own string.
\<close>

definition toFixed :: "(rat \<Rightarrow> string) \<Rightarrow> rat \<Rightarrow> nat \<Rightarrow> string" where
  "toFixed numberToString x0 f =
     (let s = (if x0 < 0 then ''-'' else '''');
          x = (if x0 < 0 then - x0 else x0);
          m = (if x \<ge> 10 ^ 21 then numberToString x
               else
                 (let n = nat \<lfloor>x * 10 ^ f + 1 / 2\<rfloor>;
                      m = (if n = 0 then ''0'' else digitsOf n)
                  in if f \<noteq> 0 then
                       (let k = length m;
                            m = (if k \<le> f then replicate (f + 1 - k) CHR ''0'' @ m else m);
                            k = (if k \<le> f then f + 1 else k)
                        in take (k - f) m @ ''.'' @ drop (k - f) m)
                     else m))
      in s @ m)"

definition formatCurrency :: "(rat \<Rightarrow> string) \<Rightarrow> rat \<Rightarrow> string" where
  "formatCurrency numberToString amount = ''Rs '' @ toFixed numberToString amount 2"

subsection \<open>Invoice data\<close>

text \<open>
  The records of \<^verbatim>\<open>createInvoiceData\<close>. The properties the code reads with a
  fallback (\<^verbatim>\<open>taxRates?.cgst || 0\<close>, \<^verbatim>\<open>roundOff || 0\<close>, \<^verbatim>\<open>item.hsn || invoice.hsn\<close>)
  may be missing; the others are always present.
\<close>

record company =
  name :: string
  brand :: string
  address :: string
  state :: string
  stateCode :: string
  gstin :: string
  contact :: string

record party =
  partyName :: string
  partyContact :: string
  partyState :: string
  partyStateCode :: string
  addressLine :: string

record lineItem =
  description :: string
  quantity :: rat
  rate :: rat
  unit :: string
  itemHsn :: "string option"

record tax_rates =
  cgst :: "rat option"
  sgst :: "rat option"

record invoice =
  number :: string
  issueDate :: string
  dueDate :: string
  terms :: string
  reference :: string
  otherReference :: string
  paymentMode :: string
  consignee :: party
  buyer :: party
  hsn :: string
  items :: "lineItem list"
  taxRates :: "tax_rates option"
  roundOff :: "rat option"
  amountInWords :: string
  taxAmountInWords :: string
  remarks :: string
  declarationText :: string

record bank =
  bankName :: string
  accountNumber :: string
  ifsc :: string
  branch :: string

record invoiceData =
  dataCompany :: company
  dataInvoice :: invoice
  dataBank :: bank

subsection \<open>Totals\<close>

record totals =
  baseAmount :: rat
  cgstAmount :: rat
  sgstAmount :: rat
  taxTotal :: rat
  totalsRoundOff :: rat
  grandTotal :: rat

text \<open>\<^verbatim>\<open>v || 0\<close> for a number that may be missing: a missing value and zero give zero.\<close>

definition orZero :: "rat option \<Rightarrow> rat" where
  "orZero v = (case v of None \<Rightarrow> 0 | Some x \<Rightarrow> if x = 0 then 0 else x)"

text \<open>\<^verbatim>\<open>invoice.taxRates?.cgst\<close>: missing when the rates or the entry are missing.\<close>

definition optRate :: "tax_rates option \<Rightarrow> (tax_rates \<Rightarrow> rat option) \<Rightarrow> rat option" where
  "optRate rates entry = (case rates of None \<Rightarrow> None | Some r \<Rightarrow> entry r)"

text \<open>
  \<^verbatim>\<open>computeTotals\<close> on the exact values of its inputs, no sum or product rounded. The
  version that rounds as the source does, \<open>computeTotalsDouble\<close>, follows the rounding
  itself below.
\<close>

definition computeTotals :: "invoice \<Rightarrow> totals" where
  "computeTotals invoice =
     (let baseAmount = foldl (\<lambda>sum item. sum + quantity item * rate item) 0 (items invoice);
          cgstAmount = baseAmount * orZero (optRate (taxRates invoice) cgst);
          sgstAmount = baseAmount * orZero (optRate (taxRates invoice) sgst);
          taxTotal = cgstAmount + sgstAmount;
          roundOff = orZero (roundOff invoice);
          grandTotal = baseAmount + taxTotal + roundOff
      in \<lparr> baseAmount = baseAmount, cgstAmount = cgstAmount, sgstAmount = sgstAmount,
           taxTotal = taxTotal, totalsRoundOff = roundOff, grandTotal = grandTotal \<rparr>)"

subsection \<open>Double-precision arithmetic\<close>

text \<open>
  The numbers of the source are IEEE 754 doubles, and every sum and product is rounded
  to the nearest double, ties to the even significand. \<open>roundDouble\<close> is that
  rounding on the rationals: \<open>ulp x\<close> is the spacing of the doubles around \<open>x\<close>, two to
  the power of the binary exponent of \<open>x\<close> less 52, and \<open>1 / 2 ^ 1074\<close> below the
  smallest normal number \<open>1 / 2 ^ 1022\<close>; the result is the multiple of the spacing
  nearest to \<open>x\<close>. The exponent has no upper limit here: from \<open>2 ^ 1024\<close> on, where the
  source gives an infinity, the model keeps the rounded number.
\<close>

definition roundHalfEven :: "rat \<Rightarrow> int" where
  "roundHalfEven x =
     (let f = \<lfloor>x\<rfloor>; d = x - of_int f
      in if d < 1 / 2 then f
         else if 1 / 2 < d then f + 1
         else if even f then f else f + 1)"

function expoUp :: "rat \<Rightarrow> nat" where
  "expoUp x = (if 2 \<le> x then Suc (expoUp (x / 2)) else 0)"
  by pat_completeness auto
termination
proof (relation "measure (\<lambda>x. nat \<lfloor>x\<rfloor>)")
  show "wf (measure (\<lambda>x::rat. nat \<lfloor>x\<rfloor>))" by simp
next
  fix x :: rat
  assume "2 \<le> x"
  then have "x / 2 \<le> x - 1" by simp
  then have "\<lfloor>x / 2\<rfloor> \<le> \<lfloor>x - 1\<rfloor>" by (rule floor_mono)
  moreover have "\<lfloor>x - 1\<rfloor> = \<lfloor>x\<rfloor> - 1" by simp
  moreover from \<open>2 \<le> x\<close> have "2 \<le> \<lfloor>x\<rfloor>" by (simp add: le_floor_iff)
  ultimately show "(x / 2, x) \<in> measure (\<lambda>x. nat \<lfloor>x\<rfloor>)" by simp
qed

function expoDown :: "rat \<Rightarrow> nat" where
  "expoDown x = (if 0 < x \<and> x < 1 then Suc (expoDown (2 * x)) else 0)"
  by pat_completeness auto
termination
proof (relation "measure (\<lambda>x. nat \<lfloor>1 / x\<rfloor>)")
  show "wf (measure (\<lambda>x::rat. nat \<lfloor>1 / x\<rfloor>))" by simp
next
  fix x :: rat
  assume a: "0 < x \<and> x < 1"
  then have y: "1 < 1 / x" by simp
  then have f: "1 \<le> \<lfloor>1 / x\<rfloor>" by (simp add: le_floor_iff)
  have "1 / x < of_int \<lfloor>1 / x\<rfloor> + 1"
    using floor_correct[of "1 / x"] by simp
  then have "1 / (2 * x) < of_int \<lfloor>1 / x\<rfloor> / 2 + 1 / 2" by simp
  moreover from f have "(1::rat) \<le> of_int \<lfloor>1 / x\<rfloor>" by linarith
  ultimately have "1 / (2 * x) < of_int \<lfloor>1 / x\<rfloor>" by linarith
  then have "\<lfloor>1 / (2 * x)\<rfloor> < \<lfloor>1 / x\<rfloor>"
    by (simp only: floor_less_iff)
  with f show "(2 * x, x) \<in> measure (\<lambda>x. nat \<lfloor>1 / x\<rfloor>)" by simp
qed

declare expoUp.simps [simp del]
declare expoDown.simps [simp del]

definition ulp :: "rat \<Rightarrow> rat" where
  "ulp x =
     (let a = \<bar>x\<bar>
      in if 1 \<le> a then 2 ^ expoUp a / 2 ^ 52
         else if 1 / 2 ^ 1022 \<le> a then 1 / (2 ^ expoDown a * 2 ^ 52)
         else 1 / 2 ^ 1074)"

definition roundDouble :: "rat \<Rightarrow> rat" where
  "roundDouble x = of_int (roundHalfEven (x / ulp x)) * ulp x"

text \<open>
  \<^verbatim>\<open>computeTotals\<close> once more, with the rounding \<open>fl\<close> that the arithmetic applies to
  each sum and product: the identity for \<open>fl\<close> gives \<open>computeTotals\<close> above, and
  \<open>roundDouble\<close> gives the totals the source computes in doubles.
\<close>

definition computeTotalsWith :: "(rat \<Rightarrow> rat) \<Rightarrow> invoice \<Rightarrow> totals" where
  "computeTotalsWith fl invoice =
     (let baseAmount = foldl (\<lambda>sum item. fl (sum + fl (quantity item * rate item))) 0
                         (items invoice);
          cgstAmount = fl (baseAmount * orZero (optRate (taxRates invoice) cgst));
          sgstAmount = fl (baseAmount * orZero (optRate (taxRates invoice) sgst));
          taxTotal = fl (cgstAmount + sgstAmount);
          roundOff = orZero (roundOff invoice);
          grandTotal = fl (fl (baseAmount + taxTotal) + roundOff)
      in \<lparr> baseAmount = baseAmount, cgstAmount = cgstAmount, sgstAmount = sgstAmount,
           taxTotal = taxTotal, totalsRoundOff = roundOff, grandTotal = grandTotal \<rparr>)"



subsection \<open>Page geometry\<close>

definition A4_WIDTH :: rat where "A4_WIDTH = 595.28"
definition A4_HEIGHT :: rat where "A4_HEIGHT = 841.89"
definition MARGIN :: rat where "MARGIN = 24"
definition BORDER_WIDTH :: rat where "BORDER_WIDTH = 0.4"
definition META_TABLE_WIDTH :: rat where "META_TABLE_WIDTH = 230"
definition META_GAP :: rat where "META_GAP = 10"

definition getContentWidth :: rat where
  "getContentWidth = A4_WIDTH - MARGIN * 2"

record layoutDimensions =
  contentWidth :: rat
  leftX :: rat
  leftWidth :: rat
  rightWidth :: rat
  rightX :: rat
  gap :: rat

definition getLayoutDimensions :: layoutDimensions where
  "getLayoutDimensions =
     (let contentWidth = getContentWidth;
          leftWidth = contentWidth - META_TABLE_WIDTH - META_GAP;
          leftX = MARGIN
      in \<lparr> contentWidth = contentWidth, leftX = leftX, leftWidth = leftWidth,
           rightWidth = META_TABLE_WIDTH, rightX = leftX + leftWidth + META_GAP,
           gap = META_GAP \<rparr>)"

subsection \<open>Drawing calls\<close>

text \<open>
  The two embedded fonts, \<^verbatim>\<open>fonts.normal\<close> and \<^verbatim>\<open>fonts.bold\<close>; a drawing call
  records which of the two handles it was given.
\<close>

datatype fontId = Normal | Bold

record fonts =
  normal :: font
  bold :: font

text \<open>
  The calls on the page. Every call of the source passes the colour black, which is
  left out. The arguments, in order:
  \<^item> \<open>DrawRectangle x y width height borderWidth\<close>;
  \<^item> \<open>DrawLine start.x start.y end.x end.y thickness\<close>;
  \<^item> \<open>DrawText text x y size font maxWidth\<close>, \<open>maxWidth\<close> missing when the call gives none;
  \<^item> \<open>DrawImage x y width height\<close>.
\<close>

datatype drawOp =
    DrawRectangle rat rat rat rat rat
  | DrawLine rat rat rat rat rat
  | DrawText string rat rat rat fontId "rat option"
  | DrawImage rat rat rat rat

text \<open>An embedded image: its pixel dimensions, and \<^verbatim>\<open>scale(factor)\<close>.\<close>

record image =
  imageWidth :: rat
  imageHeight :: rat

definition scale :: "image \<Rightarrow> rat \<Rightarrow> image" where
  "scale img factor =
     \<lparr> imageWidth = imageWidth img * factor, imageHeight = imageHeight img * factor \<rparr>"

record images =
  logo :: "image option"
  stamp :: "image option"

text \<open>
  What ends a render without a page: \<open>TypeError\<close> is the exception of reading a property
  of \<^verbatim>\<open>undefined\<close>; \<open>NonFinite\<close> marks a division by zero, whose result (an infinity or
  NaN) is no rational number.
\<close>

datatype error = TypeError | NonFinite

definition getTextWidth :: "string \<Rightarrow> font \<Rightarrow> rat \<Rightarrow> rat" where
  "getTextWidth txt fnt fontSize = widthOfTextAtSize fnt txt fontSize"

definition centerTextX :: "string \<Rightarrow> rat \<Rightarrow> rat \<Rightarrow> font \<Rightarrow> rat \<Rightarrow> rat" where
  "centerTextX txt x width fnt fontSize =
     (let textWidth = getTextWidth txt fnt fontSize in x + (width - textWidth) / 2)"

text \<open>\<^verbatim>\<open>a || b\<close> for a string \<open>a\<close> that may be missing.\<close>

definition orElse :: "string option \<Rightarrow> string \<Rightarrow> string" where
  "orElse a b = (case a of None \<Rightarrow> b | Some s \<Rightarrow> if truthy s then s else b)"

text \<open>
  The column positions both tables compute with \<^verbatim>\<open>columnWidths.reduce\<close>: the first
  column starts at \<open>x\<close>, each later one where the previous one ends.
\<close>

definition columnPositions :: "rat \<Rightarrow> rat list \<Rightarrow> rat list" where
  "columnPositions x columnWidths =
     foldl (\<lambda>positions idx.
              positions @ [if idx = 0 then x
                           else positions ! (idx - 1) + columnWidths ! (idx - 1)])
           [] [0..<length columnWidths]"

subsection \<open>Section composers\<close>

definition drawOuterBorder :: "drawOp list" where
  "drawOuterBorder =
     [DrawRectangle MARGIN MARGIN (A4_WIDTH - MARGIN * 2) (A4_HEIGHT - MARGIN * 2) BORDER_WIDTH]"

definition drawTitle :: "fonts \<Rightarrow> drawOp list" where
  "drawTitle fonts =
     (let titleText = ''Tax Invoice'';
          titleY = A4_HEIGHT - (MARGIN - 8);
          titleX = centerTextX titleText 0 A4_WIDTH (bold fonts) 14;
          subtitleText = ''(ORIGINAL FOR RECIPIENT)'';
          subtitleWidth = getTextWidth subtitleText (normal fonts) 9;
          subtitleX = A4_WIDTH - MARGIN - subtitleWidth
      in [DrawText ''Tax Invoice'' titleX titleY 14 Bold None,
          DrawText subtitleText subtitleX titleY 9 Normal None])"

text \<open>
  The two nested \<^verbatim>\<open>forEach\<close> loops of the company header; the state is the page's
  new calls and \<^verbatim>\<open>currentY\<close>. The inner loop adds \<^verbatim>\<open>lineSpacing\<close>, 12, after each
  wrapped line; the outer one adds \<^verbatim>\<open>paragraphSpacing\<close>, 2, after each line of the
  header.
\<close>

definition drawWrappedLines :: "fonts \<Rightarrow> rat \<Rightarrow> rat \<Rightarrow> drawOp list \<times> rat \<Rightarrow> string list
    \<Rightarrow> drawOp list \<times> rat" where
  "drawWrappedLines fonts textX safeTextWidth st wrappedLines =
     foldl (\<lambda>(ops, currentY) wrappedLine.
              (ops @ [DrawText wrappedLine textX (A4_HEIGHT - currentY) 9 Normal
                        (Some safeTextWidth)],
               currentY + 12))
           st wrappedLines"

definition drawHeaderLines :: "fonts \<Rightarrow> rat \<Rightarrow> rat \<Rightarrow> drawOp list \<times> rat \<Rightarrow> string list
    \<Rightarrow> drawOp list \<times> rat" where
  "drawHeaderLines fonts textX safeTextWidth st lines =
     foldl (\<lambda>st line.
              (case drawWrappedLines fonts textX safeTextWidth st
                      (wrapText line safeTextWidth (normal fonts) 9) of
                 (ops, currentY) \<Rightarrow> (ops, currentY + 2)))
           st lines"

definition drawCompanyHeader :: "company \<Rightarrow> rat \<Rightarrow> fonts \<Rightarrow> image option
    \<Rightarrow> error + (drawOp list \<times> rat)" where
  "drawCompanyHeader company topY fonts logoImage =
     (let leftX = leftX getLayoutDimensions;
          leftWidth = leftWidth getLayoutDimensions;
          textX = leftX + 8;
          logoBottom = topY
      in case (case logoImage of
                 None \<Rightarrow> Inr ([], logoBottom, textX)
               | Some img \<Rightarrow>
                   if imageWidth img = 0 then Inl NonFinite
                   else
                     (let logoWidth = 88;
                          logoDims = scale img (logoWidth / imageWidth img);
                          logoTop = topY + 6
                      in Inr ([DrawImage textX (A4_HEIGHT - logoTop - imageHeight logoDims)
                                 (imageWidth logoDims) (imageHeight logoDims)],
                              logoTop + imageHeight logoDims + 4,
                              textX + logoWidth + 8))) of
           Inl e \<Rightarrow> Inl e
         | Inr (logoOps, logoBottom, textX) \<Rightarrow>
             (let textWidth = leftWidth - (textX - leftX) - 8;
                  safeTextWidth = min textWidth 205;
                  currentY = topY + 6;
                  nameOps = [DrawText (name company) textX (A4_HEIGHT - currentY) 11 Bold
                               (Some safeTextWidth)];
                  currentY = currentY + 14;
                  lines = [address company,
                           ''State: '' @ state company @ '', Code : '' @ stateCode company,
                           ''GSTIN/UIN : '' @ gstin company,
                           ''Contact : '' @ contact company]
              in case drawHeaderLines fonts textX safeTextWidth (logoOps @ nameOps, currentY)
                        lines of
                   (ops, currentY) \<Rightarrow> Inr (ops, max currentY logoBottom)))"

definition drawInvoiceMetaTable :: "invoice \<Rightarrow> rat \<Rightarrow> fonts \<Rightarrow> drawOp list \<times> rat" where
  "drawInvoiceMetaTable invoice topY fonts =
     (let tableWidth = rightWidth getLayoutDimensions;
          x = rightX getLayoutDimensions;
          y = topY;
          rowHeight = 24;
          rows = [(''Invoice No.'', number invoice),
                  (''Dated'', issueDate invoice),
                  (''Mode/Terms of Payment'', paymentMode invoice),
                  (''Supplier'' @ [CHR 0x27] @ ''s Ref.'', reference invoice),
                  (''Other Reference'', orElse (Some (otherReference invoice)) ''-''),
                  (''Terms of Delivery'', terms invoice)];
          tableHeight = of_nat (length rows) * rowHeight;
          tableTopY = A4_HEIGHT - (y + tableHeight)
      in ([DrawRectangle x tableTopY tableWidth tableHeight BORDER_WIDTH]
          @ concat (map (\<lambda>(index, row).
              (let rowY = y + of_nat index * rowHeight;
                   separatorX = x + tableWidth * 0.45
               in (if index > 0
                   then [DrawLine x (A4_HEIGHT - rowY) (x + tableWidth) (A4_HEIGHT - rowY)
                           BORDER_WIDTH]
                   else [])
                  @ [DrawLine separatorX (A4_HEIGHT - rowY) separatorX
                       (A4_HEIGHT - (rowY + rowHeight)) BORDER_WIDTH,
                     DrawText (fst row) (x + 6) (A4_HEIGHT - (rowY + 8)) 9 Bold
                       (Some (tableWidth * 0.45 - 10)),
                     DrawText (snd row) (separatorX + 6) (A4_HEIGHT - (rowY + 8)) 9 Normal
                       (Some (tableWidth * 0.55 - 10))]))
            (enumerate 0 rows)),
          y + of_nat (length rows) * rowHeight))"

definition drawPartyBox :: "string \<Rightarrow> party \<Rightarrow> rat \<Rightarrow> rat \<Rightarrow> rat \<Rightarrow> rat \<Rightarrow> fonts \<Rightarrow> bool
    \<Rightarrow> drawOp list" where
  "drawPartyBox label party x y width height fonts drawBorder =
     (if drawBorder
      then [DrawRectangle x (A4_HEIGHT - (y + height)) width height BORDER_WIDTH]
      else [])
     @ [DrawText label (x + 8) (A4_HEIGHT - (y + 10)) 10 Bold None,
        DrawText (partyName party @ '' ('' @ partyContact party @ '')'')
          (x + 8) (A4_HEIGHT - (y + 26)) 9 Normal None,
        DrawText (''State Name : '' @ partyState party @ '', Code : '' @ partyStateCode party)
          (x + 8) (A4_HEIGHT - (y + 40)) 9 Normal None]"

definition drawTermsBox :: "string \<Rightarrow> rat \<Rightarrow> rat \<Rightarrow> rat \<Rightarrow> rat \<Rightarrow> fonts \<Rightarrow> bool
    \<Rightarrow> drawOp list" where
  "drawTermsBox termsText x y width height fonts drawBorder =
     (if drawBorder
      then [DrawRectangle x (A4_HEIGHT - (y + height)) width height BORDER_WIDTH]
      else [])
     @ [DrawText ''Terms of Delivery'' (x + 8) (A4_HEIGHT - (y + 10)) 10 Bold None,
        DrawText termsText (x + 8) (A4_HEIGHT - (y + 26)) 10 Bold None]"

definition drawPartyBlocks :: "invoice \<Rightarrow> rat \<Rightarrow> fonts \<Rightarrow> drawOp list \<times> rat" where
  "drawPartyBlocks invoice topY fonts =
     (let rowHeight = 82;
          rows = 2;
          contentWidth = getContentWidth;
          leftX = MARGIN;
          totalHeight = rowHeight * rows;
          termsWidth = META_TABLE_WIDTH;
          consigneeWidth = contentWidth - termsWidth;
          termsX = leftX + consigneeWidth;
          buyerTop = topY + rowHeight
      in ([DrawRectangle leftX (A4_HEIGHT - (topY + totalHeight)) contentWidth totalHeight
             BORDER_WIDTH,
           DrawLine termsX (A4_HEIGHT - topY) termsX (A4_HEIGHT - (topY + totalHeight))
             BORDER_WIDTH,
           DrawLine leftX (A4_HEIGHT - (topY + rowHeight)) termsX (A4_HEIGHT - (topY + rowHeight))
             BORDER_WIDTH]
          @ drawPartyBox ''Consignee'' (consignee invoice) leftX topY consigneeWidth rowHeight
              fonts False
          @ drawTermsBox (terms invoice) termsX topY termsWidth rowHeight fonts False
          @ drawPartyBox ''Buyer'' (buyer invoice) leftX buyerTop contentWidth rowHeight
              fonts False,
          buyerTop + rowHeight))"

text \<open>
  \<^verbatim>\<open>invoice.items[0] || { description: '', quantity: 0, rate: 0, unit: '' }\<close>: the
  first line item, or a blank one when the list is empty.
\<close>

definition firstItem :: "invoice \<Rightarrow> lineItem" where
  "firstItem invoice =
     (case items invoice of
        [] \<Rightarrow> \<lparr> description = '''', quantity = 0, rate = 0, unit = '''', itemHsn = None \<rparr>
      | first # _ \<Rightarrow> first)"

text \<open>The items table. The detail area is built from that one item.\<close>

definition drawItemsSection :: "(rat \<Rightarrow> string) \<Rightarrow> invoice \<Rightarrow> totals \<Rightarrow> rat \<Rightarrow> fonts
    \<Rightarrow> drawOp list \<times> rat" where
  "drawItemsSection numberToString invoice totals startY fonts =
     (let x = MARGIN;
          width = getContentWidth;
          headerTop = startY;
          columnWidths = [30, 225, 55, 45, 65, 22, 85];
          columnX = columnPositions x columnWidths;
          headerHeight = 26;
          headers = [''Sl No.'', ''Description of Goods'', ''HSN/SAC'', ''Quantity'', ''Rate'',
                     ''per'', ''Amount''];
          headerOps = map (\<lambda>(idx, header).
              (let headerX = columnX ! idx
                     + (columnWidths ! idx - getTextWidth header (bold fonts) 9) / 2
               in DrawText header headerX (A4_HEIGHT - (headerTop + 10)) 9 Bold None))
            (enumerate 0 headers);
          item = firstItem invoice;
          descMaxWidth = columnWidths ! 1 - 8;
          descWrapped = wrapText (description item) descMaxWidth (bold fonts) 10;
          lineHeight = 15;
          smallLines = [(''Output Cgst UP'', cgstAmount totals),
                        (''Output Sgst UP'', sgstAmount totals),
                        (''Round Off'', totalsRoundOff totals)];
          primaryBlockHeight = lineHeight + 8;
          descBlockHeight = of_nat (length descWrapped) * lineHeight;
          smallBlockHeight = of_nat (length smallLines) * lineHeight + 8;
          detailRowHeight = primaryBlockHeight + descBlockHeight + smallBlockHeight + 12;
          detailTop = headerTop + headerHeight;
          totalRowHeight = 20;
          totalRowTop = detailTop + detailRowHeight;
          tableHeight = headerHeight + detailRowHeight + totalRowHeight;
          frameOps = [DrawRectangle x (A4_HEIGHT - (headerTop + tableHeight)) width tableHeight
                        BORDER_WIDTH];
          separatorOps = map (\<lambda>i.
              DrawLine (columnX ! i) (A4_HEIGHT - headerTop) (columnX ! i)
                (A4_HEIGHT - (headerTop + tableHeight)) BORDER_WIDTH)
            [1..<length columnWidths];
          ruleOps = [DrawLine x (A4_HEIGHT - (headerTop + headerHeight)) (x + width)
                       (A4_HEIGHT - (headerTop + headerHeight)) BORDER_WIDTH,
                     DrawLine x (A4_HEIGHT - (detailTop + detailRowHeight)) (x + width)
                       (A4_HEIGHT - (detailTop + detailRowHeight)) BORDER_WIDTH];
          primaryY = detailTop + 8;
          slNoX = columnX ! 0 + (columnWidths ! 0 - getTextWidth ''1'' (normal fonts) 9) / 2;
          rateText = formatCurrency numberToString (orZero (Some (rate item)));
          rateX = columnX ! 4 + columnWidths ! 4 - 4 - getTextWidth rateText (normal fonts) 9;
          primaryOps =
            [DrawText ''1'' slNoX (A4_HEIGHT - primaryY) 9 Normal None,
             DrawText (orElse (itemHsn item) (orElse (Some (hsn invoice)) ''''))
               (columnX ! 2 + 4) (A4_HEIGHT - primaryY) 9 Normal (Some (columnWidths ! 2 - 8)),
             DrawText (orElse (Some (numberToString (quantity item))) '''')
               (columnX ! 3 + 4) (A4_HEIGHT - primaryY) 9 Normal (Some (columnWidths ! 3 - 8)),
             DrawText rateText rateX (A4_HEIGHT - primaryY) 9 Normal None,
             DrawText (orElse (Some (unit item)) '''')
               (columnX ! 5 + 4) (A4_HEIGHT - primaryY) 9 Normal (Some (columnWidths ! 5 - 8))];
          descStartY = primaryY + lineHeight;
          descOps = map (\<lambda>(idx, line).
              DrawText line (columnX ! 1 + 4)
                (A4_HEIGHT - (descStartY + of_nat idx * lineHeight)) 10 Bold (Some descMaxWidth))
            (enumerate 0 descWrapped);
          afterDescY = descStartY + of_nat (length descWrapped) * lineHeight + 6;
          smallOps = concat (map (\<lambda>(idx, line).
              (let lineY = afterDescY + of_nat idx * lineHeight;
                   amountText = formatCurrency numberToString (snd line);
                   amountX = columnX ! 6 + columnWidths ! 6 - 4
                     - getTextWidth amountText (normal fonts) 9
               in [DrawText (fst line) (columnX ! 1 + 4) (A4_HEIGHT - lineY) 9 Normal
                     (Some (columnWidths ! 1 - 8)),
                   DrawText amountText amountX (A4_HEIGHT - lineY) 9 Normal None]))
            (enumerate 0 smallLines));
          totalOps = [DrawText ''Total'' (columnX ! 1 + 6) (A4_HEIGHT - (totalRowTop + 8)) 9 Bold
                        (Some (columnWidths ! 1 + columnWidths ! 2 + columnWidths ! 3
                               + columnWidths ! 4 + columnWidths ! 5 - 8))];
          grandTotalText = formatCurrency numberToString (grandTotal totals);
          grandTotalX = columnX ! 6 + columnWidths ! 6 - 6
            - getTextWidth grandTotalText (bold fonts) 10;
          eoeText = ''E. & O.E'';
          eoeX = columnX ! 6 + columnWidths ! 6 - 6 - getTextWidth eoeText (normal fonts) 8
      in (headerOps @ frameOps @ separatorOps @ ruleOps @ primaryOps @ descOps @ smallOps
          @ totalOps
          @ [DrawText grandTotalText grandTotalX (A4_HEIGHT - (totalRowTop + 8)) 10 Bold None,
             DrawText eoeText eoeX (A4_HEIGHT - (totalRowTop + 16)) 8 Normal None],
          totalRowTop + totalRowHeight))"

definition drawAmountSummaries :: "invoice \<Rightarrow> rat \<Rightarrow> fonts \<Rightarrow> drawOp list \<times> rat" where
  "drawAmountSummaries invoice startY fonts =
     (let x = MARGIN;
          width = getContentWidth;
          wordsLines = wrapText (amountInWords invoice) (width - 210) (normal fonts) 9
      in ([DrawText ''Amount Chargeable (in words):'' x (A4_HEIGHT - startY) 10 Bold None]
          @ map (\<lambda>(idx, line).
              DrawText line (x + 200) (A4_HEIGHT - (startY + of_nat idx * 11)) 9 Normal
                (Some (width - 210)))
            (enumerate 0 wordsLines),
          startY + max 14 (of_nat (length wordsLines) * 11)))"

text \<open>
  A rate in percent, \<^verbatim>\<open>(rate * 100).toFixed(0)\<close> followed by the percent sign; a
  missing rate times 100 is NaN, which \<^verbatim>\<open>toFixed\<close> prints as \<^verbatim>\<open>NaN\<close>.
\<close>

definition percentText :: "(rat \<Rightarrow> string) \<Rightarrow> rat option \<Rightarrow> string" where
  "percentText numberToString r =
     (case r of None \<Rightarrow> ''NaN'' | Some c \<Rightarrow> toFixed numberToString (c * 100) 0) @ ''%''"

text \<open>
  The tax breakup table. It reads \<^verbatim>\<open>invoice.taxRates.cgst\<close> without a guard: with
  the rates missing the read throws and the render is abandoned.
\<close>

definition drawTaxBreakup :: "(rat \<Rightarrow> string) \<Rightarrow> invoice \<Rightarrow> totals \<Rightarrow> rat \<Rightarrow> fonts
    \<Rightarrow> error + (drawOp list \<times> rat)" where
  "drawTaxBreakup numberToString invoice totals startY fonts =
     (let x = MARGIN;
          tableTop = startY;
          columnWidths = [70, 110, 70, 70, 70, 70, 75];
          tableWidth = foldl (\<lambda>sum v. sum + v) 0 columnWidths;
          columnX = columnPositions x columnWidths;
          rowHeight = 24;
          rowsCount = 3;
          tableHeight = rowHeight * rowsCount;
          frameOps = [DrawRectangle x (A4_HEIGHT - (tableTop + tableHeight)) tableWidth
                        tableHeight BORDER_WIDTH];
          separatorOps = map (\<lambda>i.
              DrawLine (columnX ! i) (A4_HEIGHT - tableTop) (columnX ! i)
                (A4_HEIGHT - (tableTop + tableHeight)) BORDER_WIDTH)
            [1..<length columnWidths];
          ruleOps = [DrawLine x (A4_HEIGHT - (tableTop + rowHeight)) (x + tableWidth)
                       (A4_HEIGHT - (tableTop + rowHeight)) BORDER_WIDTH,
                     DrawLine x (A4_HEIGHT - (tableTop + rowHeight * 2)) (x + tableWidth)
                       (A4_HEIGHT - (tableTop + rowHeight * 2)) BORDER_WIDTH];
          headers = [''HSN/SAC'', ''Taxable Value'', ''CGST Rate'', ''CGST Amount'',
                     ''SGST/UTGST Rate'', ''SGST/UTGST Amount'', ''Total Tax Amount''];
          headerOps = map (\<lambda>(idx, header).
              DrawText header (columnX ! idx + 6) (A4_HEIGHT - (tableTop + 10)) 9 Bold
                (Some (columnWidths ! idx - 12)))
            (enumerate 0 headers);
          dataRowTop = tableTop + rowHeight;
          taxableValueText = formatCurrency numberToString (baseAmount totals);
          taxableX = columnX ! 1 + columnWidths ! 1 - 6
            - getTextWidth taxableValueText (normal fonts) 9
      in case taxRates invoice of
           None \<Rightarrow> Inl TypeError
         | Some rates \<Rightarrow>
             (let cgstRateText = percentText numberToString (cgst rates);
                  sgstRateText = percentText numberToString (sgst rates);
                  cgstText = formatCurrency numberToString (cgstAmount totals);
                  cgstX = columnX ! 3 + columnWidths ! 3 - 6
                    - getTextWidth cgstText (normal fonts) 9;
                  sgstText = formatCurrency numberToString (sgstAmount totals);
                  sgstX = columnX ! 5 + columnWidths ! 5 - 6
                    - getTextWidth sgstText (normal fonts) 9;
                  totalTaxText = formatCurrency numberToString (taxTotal totals);
                  totalTaxX = columnX ! 6 + columnWidths ! 6 - 6
                    - getTextWidth totalTaxText (normal fonts) 9;
                  dataOps =
                    [DrawText (hsn invoice) (columnX ! 0 + 6) (A4_HEIGHT - (dataRowTop + 10)) 9
                       Normal (Some (columnWidths ! 0 - 12)),
                     DrawText taxableValueText taxableX (A4_HEIGHT - (dataRowTop + 10)) 9
                       Normal None,
                     DrawText cgstRateText (columnX ! 2 + 6) (A4_HEIGHT - (dataRowTop + 10)) 9
                       Normal (Some (columnWidths ! 2 - 12)),
                     DrawText cgstText cgstX (A4_HEIGHT - (dataRowTop + 10)) 9 Normal None,
                     DrawText sgstRateText (columnX ! 4 + 6) (A4_HEIGHT - (dataRowTop + 10)) 9
                       Normal (Some (columnWidths ! 4 - 12)),
                     DrawText sgstText sgstX (A4_HEIGHT - (dataRowTop + 10)) 9 Normal None,
                     DrawText totalTaxText totalTaxX (A4_HEIGHT - (dataRowTop + 10)) 9
                       Normal None];
                  totalRowTop = dataRowTop + rowHeight;
                  totalBaseX = columnX ! 1 + columnWidths ! 1 - 6
                    - getTextWidth taxableValueText (bold fonts) 9;
                  totalCgstX = columnX ! 3 + columnWidths ! 3 - 6
                    - getTextWidth cgstText (bold fonts) 9;
                  totalSgstX = columnX ! 5 + columnWidths ! 5 - 6
                    - getTextWidth sgstText (bold fonts) 9;
                  totalTaxTotalX = columnX ! 6 + columnWidths ! 6 - 6
                    - getTextWidth totalTaxText (bold fonts) 9;
                  totalOps =
                    [DrawText ''Total'' (columnX ! 0 + 6) (A4_HEIGHT - (totalRowTop + 10)) 9 Bold
                       (Some (columnWidths ! 0 - 12)),
                     DrawText taxableValueText totalBaseX (A4_HEIGHT - (totalRowTop + 10)) 9
                       Bold None,
                     DrawText cgstRateText (columnX ! 2 + 6) (A4_HEIGHT - (totalRowTop + 10)) 9
                       Bold (Some (columnWidths ! 2 - 12)),
                     DrawText cgstText totalCgstX (A4_HEIGHT - (totalRowTop + 10)) 9 Bold None,
                     DrawText sgstRateText (columnX ! 4 + 6) (A4_HEIGHT - (totalRowTop + 10)) 9
                       Bold (Some (columnWidths ! 4 - 12)),
                     DrawText sgstText totalSgstX (A4_HEIGHT - (totalRowTop + 10)) 9 Bold None,
                     DrawText totalTaxText totalTaxTotalX (A4_HEIGHT - (totalRowTop + 10)) 9
                       Bold None];
                  taxWordsY = totalRowTop + rowHeight + 12;
                  taxWordsLines = wrapText (taxAmountInWords invoice) (getContentWidth - 170)
                                    (normal fonts) 9;
                  wordsOps =
                    [DrawText ''Tax Amount (in words):'' x (A4_HEIGHT - taxWordsY) 10 Bold None]
                    @ map (\<lambda>(idx, line).
                        DrawText line (x + 170) (A4_HEIGHT - (taxWordsY + of_nat idx * 11)) 9
                          Normal (Some (getContentWidth - 170)))
                      (enumerate 0 taxWordsLines)
              in Inr (frameOps @ separatorOps @ ruleOps @ headerOps @ dataOps @ totalOps
                      @ wordsOps,
                      taxWordsY + max 16 (of_nat (length taxWordsLines) * 11))))"

definition drawBankAndRemarks :: "invoice \<Rightarrow> bank \<Rightarrow> rat \<Rightarrow> fonts \<Rightarrow> drawOp list \<times> rat" where
  "drawBankAndRemarks invoice bank startY fonts =
     (let x = MARGIN;
          width = getContentWidth;
          textAreaWidth = width / 2 - 10;
          bankX = x + textAreaWidth + 20;
          currentY = startY;
          remarksLabel = [DrawText ''Remarks:'' x (A4_HEIGHT - currentY) 10 Bold None];
          currentY = currentY + 14;
          remarksLines = wrapText (remarks invoice) textAreaWidth (normal fonts) 9;
          remarksOps = map (\<lambda>(idx, line).
              DrawText line x (A4_HEIGHT - (currentY + of_nat idx * 12)) 9 Normal
                (Some textAreaWidth))
            (enumerate 0 remarksLines);
          currentY = currentY + (of_nat (length remarksLines) * 12 + 10);
          declarationLabel = [DrawText ''Declaration:'' x (A4_HEIGHT - currentY) 10 Bold None];
          currentY = currentY + 14;
          declarationLines = wrapText (declarationText invoice) textAreaWidth (normal fonts) 9;
          declarationOps = map (\<lambda>(idx, line).
              DrawText line x (A4_HEIGHT - (currentY + of_nat idx * 12)) 9 Normal
                (Some textAreaWidth))
            (enumerate 0 declarationLines);
          currentY = currentY + of_nat (length declarationLines) * 12;
          leftSectionBottom = currentY;
          bankY = startY;
          bankLabel = [DrawText (''Company'' @ [CHR 0x27] @ ''s Bank Details'') bankX
                         (A4_HEIGHT - bankY) 10 Bold None];
          bankY = bankY + 14;
          bankNameOp = [DrawText (''Bank Name : '' @ bankName bank) bankX (A4_HEIGHT - bankY) 9
                          Normal None];
          bankY = bankY + 13;
          accountOp = [DrawText (''A/c No. : '' @ accountNumber bank) bankX (A4_HEIGHT - bankY) 9
                         Normal None];
          bankY = bankY + 13;
          branchOp = [DrawText (''Branch & IFSC Code : '' @ branch bank @ '' & '' @ ifsc bank)
                        bankX (A4_HEIGHT - bankY) 9 Normal None];
          bankY = bankY + 13;
          sectionBottom = max leftSectionBottom bankY
      in (remarksLabel @ remarksOps @ declarationLabel @ declarationOps
          @ bankLabel @ bankNameOp @ accountOp @ branchOp,
          sectionBottom + 6))"

definition drawStampAndFooter :: "rat \<Rightarrow> fonts \<Rightarrow> image option \<Rightarrow> error + drawOp list" where
  "drawStampAndFooter contentBottom fonts stampImage =
     (let boxWidth = 160;
          boxHeight = 95;
          boxX = A4_WIDTH - MARGIN - boxWidth - 8;
          boxY = MARGIN + 18;
          boxOps = [DrawRectangle boxX boxY boxWidth boxHeight BORDER_WIDTH];
          signatoryText = ''Authorised Signatory'';
          signatoryX = boxX + (boxWidth - getTextWidth signatoryText (normal fonts) 9) / 2;
          footerText = ''This is a Computer Generated Invoice'';
          footerTextX = centerTextX footerText 0 A4_WIDTH (normal fonts) 9;
          footerY = MARGIN - 10;
          captionOps = [DrawText signatoryText signatoryX (boxY + 8) 9 Normal None,
                        DrawText footerText footerTextX footerY 9 Normal None]
      in case stampImage of
           None \<Rightarrow> Inr (boxOps @ captionOps)
         | Some img \<Rightarrow>
             if imageWidth img = 0 then Inl NonFinite
             else
               (let stampWidth = 65;
                    stampDims = scale img (stampWidth / imageWidth img);
                    stampX = boxX + (boxWidth - imageWidth stampDims) / 2;
                    stampY = boxY + boxHeight - imageHeight stampDims - 10
                in Inr (boxOps
                        @ [DrawImage stampX stampY (imageWidth stampDims) (imageHeight stampDims)]
                        @ captionOps)))"

subsection \<open>Page composer\<close>

definition generateInvoicePDF :: "(rat \<Rightarrow> string) \<Rightarrow> invoiceData \<Rightarrow> fonts \<Rightarrow> images
    \<Rightarrow> error + drawOp list" where
  "generateInvoicePDF numberToString data fonts images =
     (let company = dataCompany data;
          invoice = dataInvoice data;
          bank = dataBank data;
          totals = computeTotals invoice;
          headerTop = MARGIN + 8
      in case drawCompanyHeader company headerTop fonts (logo images) of
           Inl e \<Rightarrow> Inl e
         | Inr (companyOps, companyBottom) \<Rightarrow>
             (case drawInvoiceMetaTable invoice headerTop fonts of
                (metaOps, invoiceMetaBottom) \<Rightarrow>
             (let headerBottom = max companyBottom invoiceMetaBottom in
              case drawPartyBlocks invoice (headerBottom + 10) fonts of
                (partyOps, partiesBottom) \<Rightarrow>
              case drawItemsSection numberToString invoice totals (partiesBottom + 6) fonts of
                (itemsOps, itemsBottom) \<Rightarrow>
              case drawAmountSummaries invoice (itemsBottom + 6) fonts of
                (amountOps, amountBottom) \<Rightarrow>
              case drawTaxBreakup numberToString invoice totals (amountBottom + 8) fonts of
                Inl e \<Rightarrow> Inl e
              | Inr (taxOps, taxBottom) \<Rightarrow>
              case drawBankAndRemarks invoice bank (taxBottom + 10) fonts of
                (bankOps, footerInfo) \<Rightarrow>
              case drawStampAndFooter footerInfo fonts (stamp images) of
                Inl e \<Rightarrow> Inl e
              | Inr stampOps \<Rightarrow>
                  Inr (drawOuterBorder @ drawTitle fonts @ companyOps @ metaOps @ partyOps
                       @ itemsOps @ amountOps @ taxOps @ bankOps @ stampOps))))"

subsection \<open>Vocabulary of the properties\<close>

text \<open>
  A line is a single word when splitting it at spaces, as \<^verbatim>\<open>wrapText\<close> does to find
  the words, gives back the line itself. A word is blank when \<^verbatim>\<open>trim\<close> leaves nothing
  of it. A line is in order when it fits the width or is a single word that does not.
\<close>

definition singleWord :: "string \<Rightarrow> bool" where
  "singleWord line = (split CHR '' '' line = [line])"

definition lineOk :: "font \<Rightarrow> rat \<Rightarrow> rat \<Rightarrow> string \<Rightarrow> bool" where
  "lineOk fnt fontSize maxWidth line =
     (widthOfTextAtSize fnt line fontSize \<le> maxWidth
      \<or> (singleWord line \<and> maxWidth < widthOfTextAtSize fnt line fontSize))"

definition nonBlank :: "string \<Rightarrow> bool" where
  "nonBlank w = truthy (trim w)"

text \<open>Reading the page: which calls are rectangles, lines, horizontal rules, vertical rules.\<close>

fun isRectangle :: "drawOp \<Rightarrow> bool" where
  "isRectangle (DrawRectangle x y w h b) = True"
| "isRectangle _ = False"

fun isLine :: "drawOp \<Rightarrow> bool" where
  "isLine (DrawLine x1 y1 x2 y2 t) = True"
| "isLine _ = False"

fun isHorizontal :: "drawOp \<Rightarrow> bool" where
  "isHorizontal (DrawLine x1 y1 x2 y2 t) = (y1 = y2 \<and> x1 \<noteq> x2)"
| "isHorizontal _ = False"

fun isVertical :: "drawOp \<Rightarrow> bool" where
  "isVertical (DrawLine x1 y1 x2 y2 t) = (x1 = x2 \<and> y1 \<noteq> y2)"
| "isVertical _ = False"

text \<open>The height at which a horizontal rule lies, the abscissa of a vertical one.\<close>

fun lineY :: "drawOp \<Rightarrow> rat" where
  "lineY (DrawLine x1 y1 x2 y2 t) = y1"
| "lineY _ = 0"

fun lineX :: "drawOp \<Rightarrow> rat" where
  "lineX (DrawLine x1 y1 x2 y2 t) = x1"
| "lineX _ = 0"

subsection \<open>Sample inputs\<close>

text \<open>
  A font in which every glyph is half an em wide, a stand-in for
  \<^verbatim>\<open>Number.prototype.toString\<close> that is exact on integers, and the invoice of
  \<^verbatim>\<open>createInvoiceData\<close>.
\<close>

definition fixedPitch :: font where
  "fixedPitch = \<lparr> widthOfTextAtSize = (\<lambda>s size. of_nat (length s) * size / 2) \<rparr>"

definition sampleFonts :: fonts where
  "sampleFonts = \<lparr> normal = fixedPitch, bold = fixedPitch \<rparr>"

definition integerToString :: "rat \<Rightarrow> string" where
  "integerToString x = (if x < 0 then ''-'' else '''') @ digitsOf (nat \<lfloor>\<bar>x\<bar>\<rfloor>)"

definition sampleParty :: party where
  "sampleParty =
     \<lparr> partyName = ''Ranjeet'', partyContact = ''7897931119'',
       partyState = ''Uttar Pradesh'', partyStateCode = ''09'',
       addressLine = ''Lucknow, Uttar Pradesh'' \<rparr>"

definition sampleInvoice :: invoice where
  "sampleInvoice =
     \<lparr> number = ''25-26/UP-1596'', issueDate = ''08 Nov 2025'', dueDate = ''08 Nov 2025'',
       terms = ''100% Payment'', reference = ''HEV-UP-190 dt. 08-Nov-25'',
       otherReference = '''', paymentMode = ''Cash'',
       consignee = sampleParty, buyer = sampleParty, hsn = ''997319'',
       items = [\<lparr> description = ''Monthly Payment'', quantity = 1, rate = 3033.89,
                  unit = ''Nos.'', itemHsn = None \<rparr>],
       taxRates = Some \<lparr> cgst = Some 0.09, sgst = Some 0.09 \<rparr>,
       roundOff = Some 0.01,
       amountInWords = ''INR Three Thousand Five Hundred Eighty Only'',
       taxAmountInWords = ''INR Five Hundred Forty Six and Ten paise Only'',
       remarks = ''Monthly Payment 3580, 18 Months'' @ [CHR 0x0A] @ ''Payment no. 3'',
       declarationText = ''We declare that this invoice shows the actual price of the goods described and that all particulars are true and correct.'' \<rparr>"

definition sampleCompany :: company where
  "sampleCompany =
     \<lparr> name = ''Delovita Services Pvt. Ltd.'', brand = ''HeyEV!'',
       address = ''2/52 Viklap Khand, Near Rail Vihar, Chauraha, Gomti Nagar, Lucknow'',
       state = ''Uttar Pradesh'', stateCode = ''09'', gstin = ''09AAJCD9447L2W'',
       contact = ''+91 8368395140'' \<rparr>"

definition sampleBank :: bank where
  "sampleBank =
     \<lparr> bankName = ''HDFC Bank'', accountNumber = ''50200076730302'',
       ifsc = ''HDFC0001098'', branch = ''Badshahpur'' \<rparr>"

text \<open>Two invoices that differ only in the description of their second line item.\<close>

definition secondItem :: "string \<Rightarrow> lineItem" where
  "secondItem d = \<lparr> description = d, quantity = 2, rate = 150, unit = ''Nos.'',
                     itemHsn = None \<rparr>"

definition invoiceWithSetupFee :: invoice where
  "invoiceWithSetupFee =
     sampleInvoice \<lparr> items := items sampleInvoice @ [secondItem ''Setup fee''] \<rparr>"

definition invoiceWithLateFee :: invoice where
  "invoiceWithLateFee =
     sampleInvoice \<lparr> items := items sampleInvoice @ [secondItem ''Late fee''] \<rparr>"


section \<open>Text wrapping\<close>

lemma split_not_Nil: "split sep s \<noteq> []"
  by (induction s) (auto split: list.splits)

lemma split_append_sep: "split sep (a @ sep # b) = split sep a @ split sep b"
proof (induction a)
  case Nil
  show ?case by simp
next
  case (Cons c a)
  obtain w ws where s: "split sep a = w # ws"
    using split_not_Nil[of sep a] by (cases "split sep a") auto
  with Cons show ?case by simp
qed

lemma split_no_sep: "sep \<notin> set w \<Longrightarrow> split sep w = [w]"
  by (induction w) auto

lemma split_words_no_sep: "w \<in> set (split sep s) \<Longrightarrow> sep \<notin> set w"
proof (induction s arbitrary: w)
  case Nil
  then show ?case by simp
next
  case (Cons c s)
  obtain v vs where s: "split sep s = v # vs"
    using split_not_Nil[of sep s] by (cases "split sep s") auto
  show ?case
  proof (cases "c = sep")
    case True
    with Cons show ?thesis by auto
  next
    case False
    with Cons.prems s have "w = c # v \<or> w \<in> set vs" by auto
    with Cons.IH s False show ?thesis by auto
  qed
qed

lemma split_chars: "\<Union> (set ` set (split sep s)) = set s - {sep}"
proof (induction s)
  case Nil
  show ?case by simp
next
  case (Cons c s)
  obtain v vs where s: "split sep s = v # vs"
    using split_not_Nil[of sep s] by (cases "split sep s") auto
  with Cons show ?case by auto
qed

lemma dropWhile_all_iff:
  "(\<forall>c\<in>set (dropWhile P s). P c) \<longleftrightarrow> (\<forall>c\<in>set s. P c)"
proof
  assume a: "\<forall>c\<in>set (dropWhile P s). P c"
  have "dropWhile P s = []"
  proof (rule ccontr)
    assume n: "dropWhile P s \<noteq> []"
    then have "\<not> P (hd (dropWhile P s))" by (rule hd_dropWhile)
    moreover from n have "hd (dropWhile P s) \<in> set (dropWhile P s)" by (rule hd_in_set)
    ultimately show False using a by blast
  qed
  then show "\<forall>c\<in>set s. P c" by (simp add: dropWhile_eq_Nil_conv)
next
  assume "\<forall>c\<in>set s. P c"
  then show "\<forall>c\<in>set (dropWhile P s). P c" by (meson set_dropWhileD)
qed

lemma trim_Nil_iff: "trim s = [] \<longleftrightarrow> (\<forall>c\<in>set s. isWhiteSpace c)"
  by (simp add: trim_def dropWhile_eq_Nil_conv dropWhile_all_iff)

lemma nonBlank_iff: "nonBlank w \<longleftrightarrow> (\<exists>c\<in>set w. \<not> isWhiteSpace c)"
  by (simp add: nonBlank_def truthy_def trim_Nil_iff)

lemma singleWord_iff: "singleWord line \<longleftrightarrow> CHR '' '' \<notin> set line"
proof
  assume "singleWord line"
  then have "line \<in> set (split CHR '' '' line)" by (simp add: singleWord_def)
  then show "CHR '' '' \<notin> set line" by (rule split_words_no_sep)
next
  assume "CHR '' '' \<notin> set line"
  then show "singleWord line" by (simp add: singleWord_def split_no_sep)
qed

lemma lineOk_iff:
  "lineOk fnt fontSize maxWidth line \<longleftrightarrow>
     CHR '' '' \<notin> set line \<or> widthOfTextAtSize fnt line fontSize \<le> maxWidth"
  by (auto simp: lineOk_def singleWord_iff)

lemma wrapWords_blank:
  "\<forall>w\<in>set ws. \<not> nonBlank w \<Longrightarrow> wrapWords fnt fs mw ws lines [] = (lines, [])"
  by (induction ws) (simp_all add: nonBlank_def truthy_def)

lemma wrapWords_lineOk:
  assumes "wrapWords fnt fs mw ws lines cur = (lines', cur')"
    and "\<forall>w\<in>set ws. CHR '' '' \<notin> set w"
    and "\<forall>l\<in>set lines. lineOk fnt fs mw l" and "lineOk fnt fs mw cur"
  shows "(\<forall>l\<in>set lines'. lineOk fnt fs mw l) \<and> lineOk fnt fs mw cur'"
  using assms
proof (induction ws arbitrary: lines cur)
  case Nil
  then show ?case by simp
next
  case (Cons w ws)
  let ?t = "if truthy cur then cur @ '' '' @ w else w"
  from Cons.prems(2) have w: "CHR '' '' \<notin> set w" and ws: "\<forall>w\<in>set ws. CHR '' '' \<notin> set w"
    by simp_all
  show ?case
  proof (cases "truthy (trim ?t)")
    case False
    with Cons.prems(1) have "wrapWords fnt fs mw ws lines cur = (lines', cur')"
      by (simp add: Let_def)
    from Cons.IH[OF this ws Cons.prems(3) Cons.prems(4)] show ?thesis .
  next
    case True
    show ?thesis
    proof (cases "widthOfTextAtSize fnt ?t fs > mw \<and> truthy cur")
      case flush: True
      then have tc: "truthy cur" by simp
      with flush have "widthOfTextAtSize fnt (cur @ '' '' @ w) fs > mw" by simp
      with tc True Cons.prems(1)
      have r: "wrapWords fnt fs mw ws (lines @ [cur]) w = (lines', cur')"
        by (simp add: Let_def)
      have a: "\<forall>l\<in>set (lines @ [cur]). lineOk fnt fs mw l"
        using Cons.prems(3,4) by simp
      have b: "lineOk fnt fs mw w" using w by (simp add: lineOk_iff)
      from Cons.IH[OF r ws a b] show ?thesis .
    next
      case keep: False
      with True Cons.prems(1)
      have r: "wrapWords fnt fs mw ws lines ?t = (lines', cur')"
        by (simp add: Let_def)
      have b: "lineOk fnt fs mw ?t"
      proof (cases "truthy cur")
        case True
        with keep have "widthOfTextAtSize fnt (cur @ '' '' @ w) fs \<le> mw" by simp
        with True show ?thesis by (simp add: lineOk_iff)
      next
        case False
        with w show ?thesis by (simp add: lineOk_iff)
      qed
      from Cons.IH[OF r ws Cons.prems(3) b] show ?thesis .
    qed
  qed
qed

lemma wrapWords_nonempty:
  assumes "wrapWords fnt fs mw ws lines cur = (lines', cur')"
    and "lines \<noteq> [] \<or> cur \<noteq> [] \<or> (\<exists>w\<in>set ws. nonBlank w)"
  shows "lines' \<noteq> [] \<or> cur' \<noteq> []"
  using assms
proof (induction ws arbitrary: lines cur)
  case Nil
  then show ?case by simp
next
  case (Cons w ws)
  let ?t = "if truthy cur then cur @ '' '' @ w else w"
  show ?case
  proof (cases "truthy (trim ?t)")
    case False
    with Cons.prems(1) have r: "wrapWords fnt fs mw ws lines cur = (lines', cur')"
      by (simp add: Let_def)
    from False have "cur = [] \<Longrightarrow> \<not> nonBlank w"
      by (simp add: nonBlank_def truthy_def)
    with Cons.prems(2) have "lines \<noteq> [] \<or> cur \<noteq> [] \<or> (\<exists>w\<in>set ws. nonBlank w)"
      by auto
    from Cons.IH[OF r this] show ?thesis .
  next
    case True
    then have t: "?t \<noteq> []" by (auto simp: truthy_def trim_def)
    show ?thesis
    proof (cases "widthOfTextAtSize fnt ?t fs > mw \<and> truthy cur")
      case flush: True
      then have tc: "truthy cur" by simp
      with flush have "widthOfTextAtSize fnt (cur @ '' '' @ w) fs > mw" by simp
      with tc True Cons.prems(1)
      have r: "wrapWords fnt fs mw ws (lines @ [cur]) w = (lines', cur')"
        by (simp add: Let_def)
      show ?thesis by (rule Cons.IH[OF r]) simp
    next
      case keep: False
      with True Cons.prems(1)
      have r: "wrapWords fnt fs mw ws lines ?t = (lines', cur')"
        by (simp add: Let_def)
      show ?thesis by (rule Cons.IH[OF r]) (use t in simp)
    qed
  qed
qed

lemma wrapWords_words:
  assumes "wrapWords fnt fs mw ws lines cur = (lines', cur')"
    and "\<forall>w\<in>set ws. CHR '' '' \<notin> set w"
  shows "filter nonBlank (concat (map (split CHR '' '') lines') @ split CHR '' '' cur')
       = filter nonBlank (concat (map (split CHR '' '') lines) @ split CHR '' '' cur)
         @ filter nonBlank ws"
  using assms
proof (induction ws arbitrary: lines cur)
  case Nil
  then show ?case by simp
next
  case (Cons w ws)
  let ?t = "if truthy cur then cur @ '' '' @ w else w"
  from Cons.prems(2) have w: "CHR '' '' \<notin> set w" and ws: "\<forall>w\<in>set ws. CHR '' '' \<notin> set w"
    by simp_all
  have sw: "split CHR '' '' w = [w]" using w by (rule split_no_sep)
  show ?case
  proof (cases "truthy (trim ?t)")
    case False
    with Cons.prems(1) have r: "wrapWords fnt fs mw ws lines cur = (lines', cur')"
      by (simp add: Let_def)
    from False have "\<not> nonBlank w"
      by (auto simp: nonBlank_iff truthy_def trim_Nil_iff split: if_splits)
    with Cons.IH[OF r ws] show ?thesis by simp
  next
    case True
    show ?thesis
    proof (cases "widthOfTextAtSize fnt ?t fs > mw \<and> truthy cur")
      case flush: True
      then have tc: "truthy cur" by simp
      with flush have "widthOfTextAtSize fnt (cur @ '' '' @ w) fs > mw" by simp
      with tc True Cons.prems(1)
      have r: "wrapWords fnt fs mw ws (lines @ [cur]) w = (lines', cur')"
        by (simp add: Let_def)
      from Cons.IH[OF r ws] show ?thesis by (simp add: sw)
    next
      case keep: False
      with True Cons.prems(1)
      have r: "wrapWords fnt fs mw ws lines ?t = (lines', cur')"
        by (simp add: Let_def)
      have "filter nonBlank (split CHR '' '' ?t)
          = filter nonBlank (split CHR '' '' cur) @ filter nonBlank [w]"
        by (simp add: truthy_def split_append_sep sw nonBlank_iff)
      with Cons.IH[OF r ws] show ?thesis by simp
    qed
  qed
qed

lemma nonBlank_words_iff:
  "(\<exists>w\<in>set (split CHR '' '' p). nonBlank w) \<longleftrightarrow> (\<exists>c\<in>set p. \<not> isWhiteSpace c)"
proof -
  have "(\<exists>w\<in>set (split CHR '' '' p). nonBlank w)
        \<longleftrightarrow> (\<exists>c\<in>\<Union> (set ` set (split CHR '' '' p)). \<not> isWhiteSpace c)"
    by (auto simp: nonBlank_iff)
  also have "\<dots> \<longleftrightarrow> (\<exists>c\<in>set p - {CHR '' ''}. \<not> isWhiteSpace c)"
    by (simp only: split_chars)
  also have "\<dots> \<longleftrightarrow> (\<exists>c\<in>set p. \<not> isWhiteSpace c)"
    by (auto simp: isWhiteSpace_def)
  finally show ?thesis .
qed

lemma wrapParagraph_lineOk:
  assumes "l \<in> set (wrapParagraph fnt fs mw p)"
  shows "lineOk fnt fs mw l"
proof -
  obtain lines cur where r: "wrapWords fnt fs mw (split CHR '' '' p) [] [] = (lines, cur)"
    by (cases "wrapWords fnt fs mw (split CHR '' '' p) [] []") auto
  have ws: "\<forall>w\<in>set (split CHR '' '' p). CHR '' '' \<notin> set w"
    by (auto dest: split_words_no_sep)
  have "(\<forall>l\<in>set lines. lineOk fnt fs mw l) \<and> lineOk fnt fs mw cur"
    by (rule wrapWords_lineOk[OF r ws]) (simp_all add: lineOk_iff)
  with assms r show ?thesis
    by (auto simp: wrapParagraph_def split: if_splits)
qed

lemma wrapParagraph_words:
  "filter nonBlank (concat (map (split CHR '' '') (wrapParagraph fnt fs mw p)))
   = filter nonBlank (split CHR '' '' p)"
proof -
  obtain lines cur where r: "wrapWords fnt fs mw (split CHR '' '' p) [] [] = (lines, cur)"
    by (cases "wrapWords fnt fs mw (split CHR '' '' p) [] []") auto
  have ws: "\<forall>w\<in>set (split CHR '' '' p). CHR '' '' \<notin> set w"
    by (auto dest: split_words_no_sep)
  have e: "\<not> nonBlank []" by (simp add: nonBlank_iff)
  from wrapWords_words[OF r ws]
  have "filter nonBlank (concat (map (split CHR '' '') lines) @ split CHR '' '' cur)
        = filter nonBlank (split CHR '' '' p)"
    by (simp add: e)
  with r e show ?thesis
    by (cases "cur = []") (simp_all add: wrapParagraph_def truthy_def)
qed

lemma wrapParagraph_blank:
  assumes "\<forall>w\<in>set (split CHR '' '' p). \<not> nonBlank w"
  shows "wrapParagraph fnt fs mw p = []"
  by (simp add: wrapParagraph_def wrapWords_blank[OF assms] truthy_def)

lemma wrapParagraph_nonempty:
  assumes "\<exists>c\<in>set p. \<not> isWhiteSpace c"
  shows "wrapParagraph fnt fs mw p \<noteq> []"
proof -
  obtain lines cur where r: "wrapWords fnt fs mw (split CHR '' '' p) [] [] = (lines, cur)"
    by (cases "wrapWords fnt fs mw (split CHR '' '' p) [] []") auto
  from assms have "\<exists>w\<in>set (split CHR '' '' p). nonBlank w"
    by (simp add: nonBlank_words_iff)
  then have "lines \<noteq> [] \<or> cur \<noteq> []"
    using wrapWords_nonempty[OF r] by blast
  with r show ?thesis
    by (auto simp: wrapParagraph_def truthy_def)
qed

lemma foldl_append_concat:
  "foldl (\<lambda>acc p. acc @ f p) a ps = a @ concat (map f ps)"
  by (induction ps arbitrary: a) simp_all

lemma wrapText_concat:
  "wrapText txt mw fnt fs =
     (if concat (map (wrapParagraph fnt fs mw) (split CHR 0x0A txt)) = [] then ['''']
      else concat (map (wrapParagraph fnt fs mw) (split CHR 0x0A txt)))"
  by (simp add: wrapText_def foldl_append_concat Let_def)

lemma wrap_count_paragraphs:
  "length (filter (\<lambda>p. \<exists>c\<in>set p. \<not> isWhiteSpace c) ps)
   \<le> length (concat (map (wrapParagraph fnt fs mw) ps))"
proof (induction ps)
  case Nil
  show ?case by simp
next
  case (Cons p ps)
  show ?case
  proof (cases "\<exists>c\<in>set p. \<not> isWhiteSpace c")
    case True
    then have "wrapParagraph fnt fs mw p \<noteq> []" by (rule wrapParagraph_nonempty)
    then have "1 \<le> length (wrapParagraph fnt fs mw p)"
      by (cases "wrapParagraph fnt fs mw p") simp_all
    with True Cons show ?thesis by simp
  next
    case False
    with Cons show ?thesis by simp
  qed
qed

lemma wrap_words_paragraphs:
  "filter nonBlank (concat (map (split CHR '' '') (concat (map (wrapParagraph fnt fs mw) ps))))
   = filter nonBlank (concat (map (split CHR '' '') ps))"
proof (induction ps)
  case Nil
  show ?case by simp
next
  case (Cons p ps)
  then show ?case by (simp add: wrapParagraph_words)
qed

text \<open>
  Claim C4. For every text, every width and every font, each line that \<^verbatim>\<open>wrapText\<close>
  returns has a measured width of at most \<open>maxWidth\<close>, or is a single word whose
  measured width exceeds \<open>maxWidth\<close>. No word is split across lines: the words of the
  returned lines that are not blank are, in order, the words of the text's paragraphs
  that are not blank.
\<close>

theorem wrap_width_bound:
  "(\<forall>line\<in>set (wrapText txt maxWidth fnt fontSize).
      widthOfTextAtSize fnt line fontSize \<le> maxWidth
      \<or> (singleWord line \<and> maxWidth < widthOfTextAtSize fnt line fontSize))
   \<and> filter nonBlank (concat (map (split CHR '' '') (wrapText txt maxWidth fnt fontSize)))
     = filter nonBlank (concat (map (split CHR '' '') (split CHR 0x0A txt)))"
proof
  let ?all = "concat (map (wrapParagraph fnt fontSize maxWidth) (split CHR 0x0A txt))"
  have "\<forall>line\<in>set ?all. lineOk fnt fontSize maxWidth line"
    by (auto dest: wrapParagraph_lineOk)
  moreover have "lineOk fnt fontSize maxWidth []" by (simp add: lineOk_iff)
  ultimately have "\<forall>line\<in>set (wrapText txt maxWidth fnt fontSize). lineOk fnt fontSize maxWidth line"
    by (simp add: wrapText_concat)
  then show "\<forall>line\<in>set (wrapText txt maxWidth fnt fontSize).
      widthOfTextAtSize fnt line fontSize \<le> maxWidth
      \<or> (singleWord line \<and> maxWidth < widthOfTextAtSize fnt line fontSize)"
    by (simp add: lineOk_def)
next
  have e: "\<not> nonBlank []" by (simp add: nonBlank_iff)
  show "filter nonBlank (concat (map (split CHR '' '') (wrapText txt maxWidth fnt fontSize)))
     = filter nonBlank (concat (map (split CHR '' '') (split CHR 0x0A txt)))"
  proof (cases "concat (map (wrapParagraph fnt fontSize maxWidth) (split CHR 0x0A txt)) = []")
    case True
    then have "wrapText txt maxWidth fnt fontSize = ['''']"
      by (simp only: wrapText_concat simp_thms if_True)
    moreover
    have "filter nonBlank (concat (map (split CHR '' '') (split CHR 0x0A txt)))
        = filter nonBlank (concat (map (split CHR '' '')
            (concat (map (wrapParagraph fnt fontSize maxWidth) (split CHR 0x0A txt)))))"
      by (simp only: wrap_words_paragraphs)
    then have "filter nonBlank (concat (map (split CHR '' '') (split CHR 0x0A txt))) = []"
      unfolding True by simp
    ultimately show ?thesis by (simp add: e)
  next
    case False
    then have "wrapText txt maxWidth fnt fontSize
        = concat (map (wrapParagraph fnt fontSize maxWidth) (split CHR 0x0A txt))"
      by (simp only: wrapText_concat simp_thms if_False)
    then show ?thesis by (simp only: wrap_words_paragraphs)
  qed
qed

theorem wrap_width_bound_witness:
  "wrapText ''a bb incomprehensible'' 30 fixedPitch 10 = [''a bb'', ''incomprehensible'']
   \<and> widthOfTextAtSize fixedPitch ''a bb'' 10 \<le> 30
   \<and> singleWord ''incomprehensible''
   \<and> 30 < widthOfTextAtSize fixedPitch ''incomprehensible'' 10
   \<and> filter nonBlank (concat (map (split CHR '' '') [''a bb'', ''incomprehensible'']))
     = [''a'', ''bb'', ''incomprehensible'']"
proof -
  have out: "wrapText ''a bb incomprehensible'' 30 fixedPitch 10 = [''a bb'', ''incomprehensible'']"
    by code_simp
  have w: "filter nonBlank (concat (map (split CHR '' '') (split CHR 0x0A ''a bb incomprehensible'')))
       = [''a'', ''bb'', ''incomprehensible'']"
    by code_simp
  have f: "widthOfTextAtSize fixedPitch ''a bb'' 10 \<le> 30"
    and g: "30 < widthOfTextAtSize fixedPitch ''incomprehensible'' 10"
    by (simp_all add: fixedPitch_def)
  from wrap_width_bound[of "''a bb incomprehensible''" 30 fixedPitch 10] out w f g
  show ?thesis by simp
qed

text \<open>
  Claim C5 as stated fails: a text that ends in a line break, or is a line break alone,
  wraps to one line, since the paragraph after the break is empty and contributes none.
\<close>

theorem wrap_line_break_counterexample:
  "CHR 0x0A \<in> set (''Monthly Payment'' @ [CHR 0x0A])
   \<and> wrapText (''Monthly Payment'' @ [CHR 0x0A]) 217 fixedPitch 10 = [''Monthly Payment'']
   \<and> wrapText [CHR 0x0A] 217 fixedPitch 10 = ['''']"
  by code_simp

text \<open>
  Claim C5, amended. When the text on each side of a line break holds a character that
  is not white space, wrapping gives at least two lines, whatever the width and the font.
\<close>

theorem wrap_line_break:
  assumes "\<exists>c\<in>set a. \<not> isWhiteSpace c" and "\<exists>c\<in>set b. \<not> isWhiteSpace c"
  shows "2 \<le> length (wrapText (a @ [CHR 0x0A] @ b) maxWidth fnt fontSize)"
proof -
  let ?nb = "\<lambda>p. \<exists>c\<in>set p. \<not> isWhiteSpace c"
  let ?ps = "split CHR 0x0A (a @ [CHR 0x0A] @ b)"
  have nl: "isWhiteSpace CHR 0x0A" by (simp add: isWhiteSpace_def)
  have one: "1 \<le> length (filter ?nb (split CHR 0x0A s))" if "\<exists>c\<in>set s. \<not> isWhiteSpace c" for s
  proof -
    from that nl have "\<exists>c\<in>set s - {CHR 0x0A}. \<not> isWhiteSpace c" by auto
    then have "\<exists>c\<in>\<Union> (set ` set (split CHR 0x0A s)). \<not> isWhiteSpace c"
      by (simp only: split_chars)
    then obtain p where "p \<in> set (split CHR 0x0A s)" and "?nb p" by auto
    then have "filter ?nb (split CHR 0x0A s) \<noteq> []"
      by (auto simp: filter_empty_conv)
    then show ?thesis by (cases "filter ?nb (split CHR 0x0A s)") simp_all
  qed
  have "?ps = split CHR 0x0A a @ split CHR 0x0A b"
    by (simp add: split_append_sep)
  with one[OF assms(1)] one[OF assms(2)] have "2 \<le> length (filter ?nb ?ps)" by simp
  also have "\<dots> \<le> length (concat (map (wrapParagraph fnt fontSize maxWidth) ?ps))"
    by (rule wrap_count_paragraphs)
  also have "\<dots> \<le> length (wrapText (a @ [CHR 0x0A] @ b) maxWidth fnt fontSize)"
    by (cases "concat (map (wrapParagraph fnt fontSize maxWidth) ?ps) = []")
       (simp_all only: wrapText_concat if_True if_False list.size le_refl le0)
  finally show ?thesis .
qed

theorem wrap_line_break_witness:
  "(\<exists>c\<in>set ''Monthly Payment 3580, 18 Months''. \<not> isWhiteSpace c)
   \<and> (\<exists>c\<in>set ''Payment no. 3''. \<not> isWhiteSpace c)
   \<and> 2 \<le> length (wrapText (''Monthly Payment 3580, 18 Months'' @ [CHR 0x0A] @ ''Payment no. 3'')
                     263 fixedPitch 9)"
proof -
  have a: "\<exists>c\<in>set ''Monthly Payment 3580, 18 Months''. \<not> isWhiteSpace c"
    by (simp add: isWhiteSpace_def)
  have b: "\<exists>c\<in>set ''Payment no. 3''. \<not> isWhiteSpace c"
    by (simp add: isWhiteSpace_def)
  from wrap_line_break[OF a b] a b show ?thesis by blast
qed

text \<open>
  Claim C6. The empty paragraph, and every paragraph all of whose words are blank,
  contributes no line. The result of \<^verbatim>\<open>wrapText\<close> is the concatenation of the
  paragraphs' lines, or the single empty line when there are none; it is never the
  empty list.
\<close>

theorem wrap_never_empty:
  "wrapParagraph fnt fontSize maxWidth [] = []
   \<and> ((\<forall>w\<in>set (split CHR '' '' paragraph). \<not> nonBlank w)
        \<longrightarrow> wrapParagraph fnt fontSize maxWidth paragraph = [])
   \<and> wrapText txt maxWidth fnt fontSize
      = (if concat (map (wrapParagraph fnt fontSize maxWidth) (split CHR 0x0A txt)) = []
         then [''''] else concat (map (wrapParagraph fnt fontSize maxWidth) (split CHR 0x0A txt)))
   \<and> wrapText txt maxWidth fnt fontSize \<noteq> []"
proof -
  have "\<forall>w\<in>set (split CHR '' '' []). \<not> nonBlank w" by (simp add: nonBlank_iff)
  then have "wrapParagraph fnt fontSize maxWidth [] = []" by (rule wrapParagraph_blank)
  moreover have "wrapText txt maxWidth fnt fontSize \<noteq> []"
    by (simp add: wrapText_concat)
  ultimately show ?thesis
    using wrapText_concat[of "txt" maxWidth fnt fontSize]
    by (auto intro: wrapParagraph_blank)
qed

theorem wrap_never_empty_witness:
  "filter nonBlank (split CHR '' '' ''  '') = []
   \<and> wrapParagraph fixedPitch 9 100 ''  '' = []
   \<and> wrapText (''  '' @ [CHR 0x0A]) 100 fixedPitch 9 = ['''']"
proof -
  have a: "\<forall>w\<in>set (split CHR '' '' ''  ''). \<not> nonBlank w"
    by (simp add: nonBlank_iff)
  then have c: "filter nonBlank (split CHR '' '' ''  '') = []"
    by (simp only: filter_empty_conv)
  have b: "concat (map (wrapParagraph fixedPitch 9 100) (split CHR 0x0A (''  '' @ [CHR 0x0A]))) = []"
    by code_simp
  from wrap_never_empty[of fixedPitch 9 100 "''  ''" "''  '' @ [CHR 0x0A]"] a b c
  show ?thesis by simp
qed

section \<open>Helper lemmas on totals and layout\<close>

lemma orZero_Some: "orZero (Some x) = x"
  by (simp add: orZero_def)

lemma orZero_None: "orZero None = 0"
  by (simp add: orZero_def)

lemma sample_totals:
  "computeTotals sampleInvoice
   = \<lparr> baseAmount = 3033.89, cgstAmount = 273.0501, sgstAmount = 273.0501,
       taxTotal = 546.1002, totalsRoundOff = 0.01, grandTotal = 3580.0002 \<rparr>"
  by (simp add: computeTotals_def sampleInvoice_def orZero_def optRate_def Let_def)

lemma format_3580: "formatCurrency numberToString (17900001 / 5000) = ''Rs 3580.00''"
proof -
  have "\<lfloor>(17900001 / 5000::rat) * 10 ^ 2 + 1 / 2\<rfloor> = 358000" by code_simp
  then show ?thesis
    by (simp add: formatCurrency_def toFixed_def digitsOf.simps Let_def)
qed

lemma taxColumns:
  "columnPositions 24 [70, 110, 70, 70, 70, 70, 75] = [24, 94, 204, 274, 344, 414, 484]"
  by (simp add: columnPositions_def)

lemma itemColumns:
  "columnPositions 24 [30, 225, 55, 45, 65, 22, 85] = [24, 54, 279, 334, 379, 444, 466]"
  by (simp add: columnPositions_def)

lemma upt_1_7: "[1..<7] = [1, 2, 3, 4, 5, 6]"
  by (simp add: upt_rec)

lemma filter_texts_Nil:
  "filter isRectangle (map (\<lambda>(idx, line). DrawText (f idx line) (g idx line) (h idx line) s fn mw) xs) = []"
  "filter isLine (map (\<lambda>(idx, line). DrawText (f idx line) (g idx line) (h idx line) s fn mw) xs) = []"
  "filter isHorizontal (map (\<lambda>(idx, line). DrawText (f idx line) (g idx line) (h idx line) s fn mw) xs) = []"
  "filter isVertical (map (\<lambda>(idx, line). DrawText (f idx line) (g idx line) (h idx line) s fn mw) xs) = []"
  by (simp_all add: filter_empty_conv split_beta)

lemma tax_breakup_rectangles:
  assumes "drawTaxBreakup nts invoice totals startY fonts = Inr (ops, bottom)"
  shows "filter isRectangle ops
         = [DrawRectangle MARGIN (A4_HEIGHT - (startY + 72)) 535 72 BORDER_WIDTH]"
  using assms
  by (auto simp: drawTaxBreakup_def Let_def MARGIN_def taxColumns upt_1_7 filter_texts_Nil
           split: option.splits)

lemma tax_breakup_lines:
  assumes "drawTaxBreakup nts invoice totals startY fonts = Inr (ops, bottom)"
  shows "filter isLine ops
         = map (\<lambda>x. DrawLine x (A4_HEIGHT - startY) x (A4_HEIGHT - (startY + 72)) BORDER_WIDTH)
             [94, 204, 274, 344, 414, 484]
           @ map (\<lambda>y. DrawLine MARGIN (A4_HEIGHT - (startY + y)) (MARGIN + 535)
                        (A4_HEIGHT - (startY + y)) BORDER_WIDTH)
               [24, 48]"
  using assms
  by (auto simp: drawTaxBreakup_def Let_def MARGIN_def taxColumns upt_1_7 filter_texts_Nil
           split: option.splits)

lemma filter_sub:
  assumes "\<And>x. Q x \<Longrightarrow> P x"
  shows "filter Q xs = filter Q (filter P xs)"
  using assms by (induction xs) auto

lemma horizontal_is_line: "isHorizontal op \<Longrightarrow> isLine op"
  by (cases op) simp_all

lemma vertical_is_line: "isVertical op \<Longrightarrow> isLine op"
  by (cases op) simp_all

lemma tax_breakup_horizontal:
  assumes "drawTaxBreakup nts invoice totals startY fonts = Inr (ops, bottom)"
  shows "filter isHorizontal ops
         = map (\<lambda>y. DrawLine MARGIN (A4_HEIGHT - (startY + y)) (MARGIN + 535)
                        (A4_HEIGHT - (startY + y)) BORDER_WIDTH)
               [24, 48]"
proof -
  have "filter isHorizontal ops = filter isHorizontal (filter isLine ops)"
    by (rule filter_sub) (rule horizontal_is_line)
  then show ?thesis
    by (simp add: tax_breakup_lines[OF assms] MARGIN_def)
qed

lemma tax_breakup_vertical:
  assumes "drawTaxBreakup nts invoice totals startY fonts = Inr (ops, bottom)"
  shows "filter isVertical ops
         = map (\<lambda>x. DrawLine x (A4_HEIGHT - startY) x (A4_HEIGHT - (startY + 72)) BORDER_WIDTH)
             [94, 204, 274, 344, 414, 484]"
proof -
  have "filter isVertical ops = filter isVertical (filter isLine ops)"
    by (rule filter_sub) (rule vertical_is_line)
  then show ?thesis
    by (simp add: tax_breakup_lines[OF assms] MARGIN_def)
qed

lemma tax_breakup_returns:
  assumes "taxRates invoice = Some rates"
  shows "\<exists>ops bottom. drawTaxBreakup nts invoice totals startY fonts = Inr (ops, bottom)"
  using assms by (simp add: drawTaxBreakup_def Let_def)

lemma drawWrappedLines_snd:
  "snd (drawWrappedLines fonts textX w (ops, y) ls) = y + 12 * of_nat (length ls)"
  unfolding drawWrappedLines_def
  by (induction ls arbitrary: ops y) (simp_all add: algebra_simps)

lemma drawHeaderLines_snd:
  "y \<le> snd (drawHeaderLines fonts textX w (ops, y) lines)"
  unfolding drawHeaderLines_def
proof (induction lines arbitrary: ops y)
  case Nil
  show ?case by simp
next
  case (Cons l lines)
  obtain ops' y' where r:
    "drawWrappedLines fonts textX w (ops, y) (wrapText l w (normal fonts) 9) = (ops', y')"
    by (cases "drawWrappedLines fonts textX w (ops, y) (wrapText l w (normal fonts) 9)")
  have "y' = y + 12 * of_nat (length (wrapText l w (normal fonts) 9))"
    using drawWrappedLines_snd[of fonts textX w ops y "wrapText l w (normal fonts) 9"] r
    by simp
  then have "y \<le> y' + 2" by simp
  also have "y' + 2 \<le> snd (foldl (\<lambda>st line.
              (case drawWrappedLines fonts textX w st (wrapText line w (normal fonts) 9) of
                 (ops, currentY) \<Rightarrow> (ops, currentY + 2))) (ops', y' + 2) lines)"
    by (rule Cons.IH)
  finally show ?case by (simp add: r)
qed

lemma header_lines_after:
  assumes "drawHeaderLines fonts textX w (ops0, y) lines = (ops, y')"
  shows "y \<le> y'"
  using drawHeaderLines_snd[of y fonts textX w ops0 lines] assms by simp

lemma company_header_bottom:
  assumes "drawCompanyHeader company topY fonts logoImage = Inr (ops, bottom)"
  shows "topY < bottom"
proof (cases logoImage)
  case None
  with assms show ?thesis
    by (auto simp: drawCompanyHeader_def Let_def less_max_iff_disj
             split: prod.splits dest!: header_lines_after)
next
  case (Some img)
  with assms show ?thesis
    by (auto simp: drawCompanyHeader_def Let_def less_max_iff_disj
             split: prod.splits if_splits dest!: header_lines_after)
qed

lemma company_header_returns:
  assumes "logoImage = None \<or> (\<exists>img. logoImage = Some img \<and> imageWidth img \<noteq> 0)"
  shows "\<exists>ops bottom. drawCompanyHeader company topY fonts logoImage = Inr (ops, bottom)"
  using assms
  by (auto simp: drawCompanyHeader_def Let_def split: prod.splits)

lemma meta_table_bottom: "snd (drawInvoiceMetaTable invoice topY fonts) = topY + 144"
  by (simp add: drawInvoiceMetaTable_def Let_def)

lemma party_blocks_bottom: "snd (drawPartyBlocks invoice topY fonts) = topY + 164"
  by (simp add: drawPartyBlocks_def Let_def)

lemma items_section_bottom:
  "snd (drawItemsSection nts invoice totals startY fonts)
   = startY + 134
     + 15 * of_nat (length (wrapText (description (firstItem invoice)) 217 (bold fonts) 10))"
  by (simp add: drawItemsSection_def Let_def)

lemma amount_summaries_bottom:
  "snd (drawAmountSummaries invoice startY fonts)
   = startY + max 14 (of_nat (length (wrapText (amountInWords invoice) (getContentWidth - 210)
                                        (normal fonts) 9)) * 11)"
  by (simp add: drawAmountSummaries_def Let_def)

lemma tax_breakup_bottom:
  assumes "drawTaxBreakup nts invoice totals startY fonts = Inr (ops, bottom)"
  shows "bottom = startY + 84
           + max 16 (of_nat (length (wrapText (taxAmountInWords invoice) (getContentWidth - 170)
                                        (normal fonts) 9)) * 11)"
  using assms
  by (auto simp: drawTaxBreakup_def Let_def split: option.splits)

lemma bank_and_remarks_bottom:
  "startY + 59 \<le> snd (drawBankAndRemarks invoice bank startY fonts)"
  by (simp add: drawBankAndRemarks_def Let_def)

lemma items_section_depends:
  assumes "firstItem a = firstItem b" and "hsn a = hsn b"
  shows "drawItemsSection nts a totals y fonts = drawItemsSection nts b totals y fonts"
  by (simp only: drawItemsSection_def assms)

lemma firstItem_take:
  "firstItem (invoice\<lparr>items := take 1 (items invoice)\<rparr>) = firstItem invoice"
  by (cases "items invoice") (simp_all add: firstItem_def)

lemma items_section_length:
  "length (fst (drawItemsSection nts invoice totals startY fonts))
   = 30 + length (wrapText (description (firstItem invoice)) 217 (bold fonts) 10)"
  by (simp add: drawItemsSection_def Let_def)

lemma items_section_sublines:
  assumes "(k, a) \<in> {(0, cgstAmount totals), (1, sgstAmount totals), (2, totalsRoundOff totals)}"
  shows "DrawText (formatCurrency nts a)
           (547 - getTextWidth (formatCurrency nts a) (normal fonts) 9)
           (A4_HEIGHT - (startY + 55
              + 15 * of_nat (length (wrapText (description (firstItem invoice)) 217
                                       (bold fonts) 10))
              + 15 * k))
           9 Normal None
         \<in> set (fst (drawItemsSection nts invoice totals startY fonts))"
  using assms
  by (auto simp: drawItemsSection_def Let_def MARGIN_def itemColumns algebra_simps)

lemma items_section_serial:
  "DrawText ''1'' (24 + (30 - getTextWidth ''1'' (normal fonts) 9) / 2)
     (A4_HEIGHT - (startY + 34)) 9 Normal None
   \<in> set (fst (drawItemsSection nts invoice totals startY fonts))"
  by (simp add: drawItemsSection_def Let_def MARGIN_def itemColumns algebra_simps)

lemma items_section_grand_total:
  "DrawText (formatCurrency nts (grandTotal totals))
     (545 - getTextWidth (formatCurrency nts (grandTotal totals)) (bold fonts) 10)
     (A4_HEIGHT - (startY + 122
        + 15 * of_nat (length (wrapText (description (firstItem invoice)) 217
                                 (bold fonts) 10))))
     10 Bold None
   \<in> set (fst (drawItemsSection nts invoice totals startY fonts))"
  by (simp add: drawItemsSection_def Let_def MARGIN_def itemColumns algebra_simps)

lemma items_section_description:
  "filter (\<lambda>op. case op of DrawText s x y sz f mw \<Rightarrow> sz = 10 \<and> mw \<noteq> None | _ \<Rightarrow> False)
     (fst (drawItemsSection nts invoice totals startY fonts))
   = map (\<lambda>(idx, line). DrawText line 58 (A4_HEIGHT - (startY + 49 + of_nat idx * 15)) 10 Bold (Some 217))
       (enumerate 0 (wrapText (description (firstItem invoice)) 217 (bold fonts) 10))"
  by (simp add: drawItemsSection_def Let_def MARGIN_def itemColumns upt_1_7 split_beta
        filter_map comp_def)

lemma sample_description:
  "wrapText ''Monthly Payment'' 217 fixedPitch 10 = [''Monthly Payment'']"
  by (simp add: wrapText_def wrapParagraph_def fixedPitch_def truthy_def trim_def
        isWhiteSpace_def)
















lemma roundDouble_0: "roundDouble 0 = 0"
  by (simp add: roundDouble_def roundHalfEven_def)





lemma computeTotals_exact: "computeTotalsWith (\<lambda>x. x) invoice = computeTotals invoice"
  by (simp add: computeTotalsWith_def computeTotals_def)




section \<open>The items table\<close>

text \<open>
  Claim C1 as stated fails: two invoices of two line items each, which differ in the
  second item's description, give the same items table, totals included.
\<close>

theorem items_section_counterexample:
  "items invoiceWithSetupFee \<noteq> items invoiceWithLateFee
   \<and> length (items invoiceWithSetupFee) = 2
   \<and> length (items invoiceWithLateFee) = 2
   \<and> drawItemsSection integerToString invoiceWithSetupFee (computeTotals invoiceWithSetupFee)
        300 sampleFonts
     = drawItemsSection integerToString invoiceWithLateFee (computeTotals invoiceWithLateFee)
        300 sampleFonts"
proof -
  have t: "computeTotals invoiceWithSetupFee = computeTotals invoiceWithLateFee"
    by (simp add: computeTotals_def invoiceWithSetupFee_def invoiceWithLateFee_def
          secondItem_def)
  have f: "firstItem invoiceWithSetupFee = firstItem invoiceWithLateFee"
    by (simp add: firstItem_def invoiceWithSetupFee_def invoiceWithLateFee_def
          sampleInvoice_def)
  have h: "hsn invoiceWithSetupFee = hsn invoiceWithLateFee"
    by (simp add: invoiceWithSetupFee_def invoiceWithLateFee_def)
  have d: "items invoiceWithSetupFee \<noteq> items invoiceWithLateFee"
    by (simp add: invoiceWithSetupFee_def invoiceWithLateFee_def secondItem_def)
  have l: "length (items invoiceWithSetupFee) = 2" "length (items invoiceWithLateFee) = 2"
    by (simp_all add: invoiceWithSetupFee_def invoiceWithLateFee_def sampleInvoice_def)
  from items_section_depends[OF f h] t d l show ?thesis by simp
qed

text \<open>
  Claim C1, amended. The items table has one detail block whatever the number of line
  items, built from the first item alone (a blank item when there is none): the table
  is the one of the invoice cut down to its first item; it makes 30 drawing calls and
  one more per wrapped line of that item's description; the serial number \<^verbatim>\<open>1\<close> is in
  the primary row; the description lines follow 15 points apart; and the amounts of
  the three tax and round-off lines end 4 points left of the amount column's right
  edge, at abscissa 547. The other items reach the table only through the totals.
\<close>

theorem items_section_first_item_only:
  "drawItemsSection numberToString invoice totals startY fonts
     = drawItemsSection numberToString (invoice\<lparr>items := take 1 (items invoice)\<rparr>) totals
         startY fonts
   \<and> length (fst (drawItemsSection numberToString invoice totals startY fonts))
     = 30 + length (wrapText (description (firstItem invoice)) 217 (bold fonts) 10)
   \<and> DrawText ''1'' (24 + (30 - getTextWidth ''1'' (normal fonts) 9) / 2)
         (A4_HEIGHT - (startY + 34)) 9 Normal None
       \<in> set (fst (drawItemsSection numberToString invoice totals startY fonts))
   \<and> filter (\<lambda>op. case op of DrawText s x y sz f mw \<Rightarrow> sz = 10 \<and> mw \<noteq> None | _ \<Rightarrow> False)
         (fst (drawItemsSection numberToString invoice totals startY fonts))
     = map (\<lambda>(idx, line).
              DrawText line 58 (A4_HEIGHT - (startY + 49 + of_nat idx * 15)) 10 Bold (Some 217))
         (enumerate 0 (wrapText (description (firstItem invoice)) 217 (bold fonts) 10))
   \<and> (\<forall>k a. (k, a) \<in> {(0, cgstAmount totals), (1, sgstAmount totals),
                         (2, totalsRoundOff totals)}
        \<longrightarrow> DrawText (formatCurrency numberToString a)
              (547 - getTextWidth (formatCurrency numberToString a) (normal fonts) 9)
              (A4_HEIGHT - (startY + 55
                 + 15 * of_nat (length (wrapText (description (firstItem invoice)) 217
                                          (bold fonts) 10))
                 + 15 * k))
              9 Normal None
            \<in> set (fst (drawItemsSection numberToString invoice totals startY fonts)))"
proof (intro conjI allI impI)
  show "drawItemsSection numberToString invoice totals startY fonts
     = drawItemsSection numberToString (invoice\<lparr>items := take 1 (items invoice)\<rparr>) totals
         startY fonts"
  proof -
    have f: "firstItem invoice = firstItem (invoice\<lparr>items := take 1 (items invoice)\<rparr>)"
      by (simp only: firstItem_take)
    have h: "hsn invoice = hsn (invoice\<lparr>items := take 1 (items invoice)\<rparr>)"
      by simp
    show ?thesis by (rule items_section_depends[OF f h])
  qed
qed (simp_all only: items_section_length items_section_serial items_section_description
       items_section_sublines)

theorem items_section_first_item_only_witness:
  "drawItemsSection integerToString invoiceWithSetupFee (computeTotals invoiceWithSetupFee)
      300 sampleFonts
     = drawItemsSection integerToString sampleInvoice (computeTotals invoiceWithSetupFee)
         300 sampleFonts
   \<and> length (items invoiceWithSetupFee) = 2
   \<and> length (fst (drawItemsSection integerToString invoiceWithSetupFee
                     (computeTotals invoiceWithSetupFee) 300 sampleFonts)) = 31"
proof -
  note T = items_section_first_item_only[of integerToString invoiceWithSetupFee
             "computeTotals invoiceWithSetupFee" 300 sampleFonts]
  have a: "invoiceWithSetupFee\<lparr>items := take 1 (items invoiceWithSetupFee)\<rparr> = sampleInvoice"
    by (simp add: invoiceWithSetupFee_def sampleInvoice_def)
  have b: "wrapText (description (firstItem invoiceWithSetupFee)) 217 (bold sampleFonts) 10
           = [''Monthly Payment'']"
    by (simp add: invoiceWithSetupFee_def sampleInvoice_def firstItem_def sampleFonts_def
          sample_description)
  have c: "length (items invoiceWithSetupFee) = 2"
    by (simp add: invoiceWithSetupFee_def sampleInvoice_def)
  from T[THEN conjunct1] have 1:
    "drawItemsSection integerToString invoiceWithSetupFee (computeTotals invoiceWithSetupFee)
      300 sampleFonts
     = drawItemsSection integerToString sampleInvoice (computeTotals invoiceWithSetupFee)
         300 sampleFonts"
    unfolding a .
  from T[THEN conjunct2, THEN conjunct1] have 2:
    "length (fst (drawItemsSection integerToString invoiceWithSetupFee
                     (computeTotals invoiceWithSetupFee) 300 sampleFonts)) = 31"
    unfolding b by simp
  from 1 c 2 show ?thesis by (intro conjI)
qed

section \<open>The totals\<close>

text \<open>
  Claim C2 as stated fails: for one item of quantity 1 and rate 3033.89, both rates
  0.09 and a round-off of 0.01, the tax amounts are not 272.8501, the tax total is not
  545.7002, the grand total is not 3580.4403 and its cell does not read
  \<^verbatim>\<open>Rs 3580.44\<close>.
\<close>

theorem totals_scenario_counterexample:
  "cgstAmount (computeTotals sampleInvoice) \<noteq> 272.8501
   \<and> sgstAmount (computeTotals sampleInvoice) \<noteq> 272.8501
   \<and> taxTotal (computeTotals sampleInvoice) \<noteq> 545.7002
   \<and> grandTotal (computeTotals sampleInvoice) \<noteq> 3580.4403
   \<and> formatCurrency integerToString (grandTotal (computeTotals sampleInvoice)) \<noteq> ''Rs 3580.44''"
  by (simp add: sample_totals format_3580)

text \<open>
  Claim C2, amended. For that input \<^verbatim>\<open>computeTotals\<close> returns the base amount 3033.89,
  both tax amounts 273.0501, the tax total 546.1002 and the grand total 3580.0002, and
  the grand-total cell of the items table reads \<^verbatim>\<open>Rs 3580.00\<close>, in bold at size 10,
  ending 6 points left of the amount column's right edge.
\<close>

theorem totals_scenario:
  assumes "items invoice = [item]" and "quantity item = 1" and "rate item = 3033.89"
    and "taxRates invoice = Some rates" and "cgst rates = Some 0.09" and "sgst rates = Some 0.09"
    and "roundOff invoice = Some 0.01"
  shows "computeTotals invoice
         = \<lparr> baseAmount = 3033.89, cgstAmount = 273.0501, sgstAmount = 273.0501,
             taxTotal = 546.1002, totalsRoundOff = 0.01, grandTotal = 3580.0002 \<rparr>
       \<and> formatCurrency numberToString (grandTotal (computeTotals invoice)) = ''Rs 3580.00''
       \<and> DrawText ''Rs 3580.00'' (545 - getTextWidth ''Rs 3580.00'' (bold fonts) 10)
             (A4_HEIGHT - (startY + 122
                + 15 * of_nat (length (wrapText (description item) 217 (bold fonts) 10))))
             10 Bold None
           \<in> set (fst (drawItemsSection numberToString invoice (computeTotals invoice)
                          startY fonts))"
proof -
  have t: "computeTotals invoice
         = \<lparr> baseAmount = 3033.89, cgstAmount = 273.0501, sgstAmount = 273.0501,
             taxTotal = 546.1002, totalsRoundOff = 0.01, grandTotal = 3580.0002 \<rparr>"
    using assms by (simp add: computeTotals_def orZero_def optRate_def Let_def)
  then have f: "formatCurrency numberToString (grandTotal (computeTotals invoice))
                = ''Rs 3580.00''"
    by (simp add: format_3580)
  have i: "firstItem invoice = item"
    using assms(1) by (simp add: firstItem_def)
  from items_section_grand_total[of numberToString "computeTotals invoice" fonts startY invoice]
  have "DrawText ''Rs 3580.00'' (545 - getTextWidth ''Rs 3580.00'' (bold fonts) 10)
             (A4_HEIGHT - (startY + 122
                + 15 * of_nat (length (wrapText (description item) 217 (bold fonts) 10))))
             10 Bold None
           \<in> set (fst (drawItemsSection numberToString invoice (computeTotals invoice)
                          startY fonts))"
    unfolding f i .
  with t f show ?thesis by (intro conjI)
qed

theorem totals_scenario_witness:
  "items sampleInvoice = [\<lparr> description = ''Monthly Payment'', quantity = 1, rate = 3033.89,
                            unit = ''Nos.'', itemHsn = None \<rparr>]
   \<and> computeTotals sampleInvoice
     = \<lparr> baseAmount = 3033.89, cgstAmount = 273.0501, sgstAmount = 273.0501,
         taxTotal = 546.1002, totalsRoundOff = 0.01, grandTotal = 3580.0002 \<rparr>
   \<and> formatCurrency integerToString (grandTotal (computeTotals sampleInvoice)) = ''Rs 3580.00''"
proof -
  have a: "items sampleInvoice = [\<lparr> description = ''Monthly Payment'', quantity = 1,
             rate = 3033.89, unit = ''Nos.'', itemHsn = None \<rparr>]"
    and b: "taxRates sampleInvoice = Some \<lparr> cgst = Some 0.09, sgst = Some 0.09 \<rparr>"
    and c: "roundOff sampleInvoice = Some 0.01"
    by (simp_all add: sampleInvoice_def)
  have q: "quantity \<lparr> description = ''Monthly Payment'', quantity = 1, rate = 3033.89,
             unit = ''Nos.'', itemHsn = None \<rparr> = 1"
    and r: "rate \<lparr> description = ''Monthly Payment'', quantity = 1, rate = 3033.89,
             unit = ''Nos.'', itemHsn = None \<rparr> = 3033.89"
    and g: "cgst \<lparr> cgst = Some 0.09, sgst = Some 0.09 \<rparr> = Some 0.09"
    and h: "sgst \<lparr> cgst = Some 0.09, sgst = Some 0.09 \<rparr> = Some 0.09"
    by simp_all
  note T = totals_scenario[OF a q r b g h c, of integerToString sampleFonts 0]
  from a T[THEN conjunct1] T[THEN conjunct2, THEN conjunct1]
  show ?thesis by (intro conjI)
qed




text \<open>
  Claim C9. When the invoice has no tax rates, or rates without the two entries,
  \<^verbatim>\<open>computeTotals\<close> returns totals whose two tax amounts and tax total are zero and
  whose grand total is the base amount plus the round-off.
\<close>

theorem totals_missing_rates:
  assumes "taxRates invoice = None
           \<or> (\<exists>rates. taxRates invoice = Some rates \<and> cgst rates = None \<and> sgst rates = None)"
  shows "cgstAmount (computeTotals invoice) = 0
       \<and> sgstAmount (computeTotals invoice) = 0
       \<and> taxTotal (computeTotals invoice) = 0
       \<and> grandTotal (computeTotals invoice)
           = baseAmount (computeTotals invoice) + orZero (roundOff invoice)"
  using assms
  by (auto simp: computeTotals_def Let_def optRate_def orZero_def)

theorem totals_missing_rates_witness:
  "taxRates (sampleInvoice\<lparr>taxRates := None\<rparr>) = None
   \<and> cgstAmount (computeTotals (sampleInvoice\<lparr>taxRates := None\<rparr>)) = 0
   \<and> sgstAmount (computeTotals (sampleInvoice\<lparr>taxRates := None\<rparr>)) = 0
   \<and> taxTotal (computeTotals (sampleInvoice\<lparr>taxRates := None\<rparr>)) = 0
   \<and> grandTotal (computeTotals (sampleInvoice\<lparr>taxRates := None\<rparr>)) = 3033.9"
proof -
  have a: "taxRates (sampleInvoice\<lparr>taxRates := None\<rparr>) = None" by simp
  have b: "baseAmount (computeTotals (sampleInvoice\<lparr>taxRates := None\<rparr>)) = 3033.89"
    by (simp add: computeTotals_def sampleInvoice_def Let_def)
  have c: "roundOff (sampleInvoice\<lparr>taxRates := None\<rparr>) = Some 0.01"
    by (simp add: sampleInvoice_def)
  from totals_missing_rates[OF disjI1, OF a] a b c show ?thesis
    by (simp add: orZero_def)
qed

text \<open>
  Claim C10. When the invoice has no line items, \<^verbatim>\<open>computeTotals\<close> returns totals
  whose base amount, tax amounts and tax total are zero and whose grand total is the
  round-off, or zero when the round-off is missing.
\<close>

theorem totals_no_items:
  assumes "items invoice = []"
  shows "baseAmount (computeTotals invoice) = 0
       \<and> cgstAmount (computeTotals invoice) = 0
       \<and> sgstAmount (computeTotals invoice) = 0
       \<and> taxTotal (computeTotals invoice) = 0
       \<and> grandTotal (computeTotals invoice)
           = (case roundOff invoice of None \<Rightarrow> 0 | Some r \<Rightarrow> r)"
  using assms
  by (simp add: computeTotals_def Let_def orZero_def split: option.split)

theorem totals_no_items_witness:
  "items (sampleInvoice\<lparr>items := []\<rparr>) = []
   \<and> baseAmount (computeTotals (sampleInvoice\<lparr>items := []\<rparr>)) = 0
   \<and> taxTotal (computeTotals (sampleInvoice\<lparr>items := []\<rparr>)) = 0
   \<and> grandTotal (computeTotals (sampleInvoice\<lparr>items := []\<rparr>)) = 0.01
   \<and> grandTotal (computeTotals (sampleInvoice\<lparr>items := [], roundOff := None\<rparr>)) = 0"
proof -
  have a: "items (sampleInvoice\<lparr>items := []\<rparr>) = []"
    and b: "items (sampleInvoice\<lparr>items := [], roundOff := None\<rparr>) = []"
    by simp_all
  have c: "roundOff (sampleInvoice\<lparr>items := []\<rparr>) = Some 0.01"
    by (simp add: sampleInvoice_def)
  from totals_no_items[OF a] totals_no_items[OF b] a c show ?thesis by simp
qed

section \<open>Table borders and the cursor\<close>

text \<open>
  Claim C7. The tax breakup table, of three rows of height 24 and seven columns of
  widths 70, 110, 70, 70, 70, 70 and 75, draws one rectangle, its outer frame of width
  535 and height 72, and eight lines, no two of them equal: the two horizontal rules,
  from the left edge to the right edge at the two boundaries between rows, and the six
  vertical rules, from the top edge to the bottom edge at the six boundaries between
  columns. The horizontal rules lie strictly between the frame's top and bottom edges
  and the vertical rules strictly between its left and right edges: no rule lies on an
  edge of the frame, and none is drawn twice.
\<close>

theorem tax_breakup_borders:
  assumes "drawTaxBreakup numberToString invoice totals startY fonts = Inr (ops, bottom)"
  shows "filter isRectangle ops
           = [DrawRectangle MARGIN (A4_HEIGHT - (startY + 72)) 535 72 BORDER_WIDTH]
       \<and> filter isHorizontal ops
           = map (\<lambda>k. DrawLine MARGIN (A4_HEIGHT - (startY + 24 * k)) (MARGIN + 535)
                        (A4_HEIGHT - (startY + 24 * k)) BORDER_WIDTH)
               [1, 2]
       \<and> filter isVertical ops
           = map (\<lambda>w. DrawLine (MARGIN + w) (A4_HEIGHT - startY) (MARGIN + w)
                        (A4_HEIGHT - (startY + 72)) BORDER_WIDTH)
               [70, 70 + 110, 70 + 110 + 70, 70 + 110 + 70 + 70, 70 + 110 + 70 + 70 + 70,
                70 + 110 + 70 + 70 + 70 + 70]
       \<and> filter isLine ops = filter isVertical ops @ filter isHorizontal ops
       \<and> distinct (filter isLine ops)
       \<and> length (filter isLine ops) = 8
       \<and> length (filter isHorizontal ops) = 2
       \<and> length (filter isVertical ops) = 6
       \<and> (\<forall>op\<in>set (filter isHorizontal ops).
             A4_HEIGHT - (startY + 72) < lineY op \<and> lineY op < A4_HEIGHT - startY)
       \<and> (\<forall>op\<in>set (filter isVertical ops). MARGIN < lineX op \<and> lineX op < MARGIN + 535)"
  by (simp add: tax_breakup_rectangles[OF assms] tax_breakup_lines[OF assms]
        tax_breakup_horizontal[OF assms] tax_breakup_vertical[OF assms] MARGIN_def)

theorem tax_breakup_borders_witness:
  "(\<exists>ops bottom.
      drawTaxBreakup integerToString sampleInvoice (computeTotals sampleInvoice) 500 sampleFonts
        = Inr (ops, bottom)
      \<and> length (filter isRectangle ops) = 1
      \<and> map lineY (filter isHorizontal ops) = [A4_HEIGHT - 524, A4_HEIGHT - 548]
      \<and> map lineX (filter isVertical ops) = [94, 204, 274, 344, 414, 484]
      \<and> distinct (filter isLine ops))"
proof -
  have "taxRates sampleInvoice = Some \<lparr> cgst = Some 0.09, sgst = Some 0.09 \<rparr>"
    by (simp add: sampleInvoice_def)
  from tax_breakup_returns[OF this]
  obtain ops bottom where
    r: "drawTaxBreakup integerToString sampleInvoice (computeTotals sampleInvoice) 500 sampleFonts
        = Inr (ops, bottom)"
    by blast
  from tax_breakup_borders[OF r] r show ?thesis by (simp add: MARGIN_def)
qed

text \<open>
  Claim C8. Each of the seven section composers that take the cursor returns a bottom
  strictly greater than the top it was given: the company header (which returns
  whenever the logo, if any, has a width other than zero), the invoice metadata table,
  the party blocks, the items section, the amount summaries, the tax breakup (which
  returns whenever the invoice has tax rates) and the bank and remarks block.
\<close>

theorem cursor_monotone:
  "(\<forall>ops bottom. drawCompanyHeader company topY fonts logoImage = Inr (ops, bottom)
       \<longrightarrow> topY < bottom)
   \<and> (logoImage = None \<or> (\<exists>img. logoImage = Some img \<and> imageWidth img \<noteq> 0)
       \<longrightarrow> (\<exists>ops bottom. drawCompanyHeader company topY fonts logoImage = Inr (ops, bottom)))
   \<and> topY < snd (drawInvoiceMetaTable invoice topY fonts)
   \<and> topY < snd (drawPartyBlocks invoice topY fonts)
   \<and> topY < snd (drawItemsSection numberToString invoice totals topY fonts)
   \<and> topY < snd (drawAmountSummaries invoice topY fonts)
   \<and> (\<forall>ops bottom. drawTaxBreakup numberToString invoice totals topY fonts = Inr (ops, bottom)
       \<longrightarrow> topY < bottom)
   \<and> (taxRates invoice \<noteq> None
       \<longrightarrow> (\<exists>ops bottom. drawTaxBreakup numberToString invoice totals topY fonts
                          = Inr (ops, bottom)))
   \<and> topY < snd (drawBankAndRemarks invoice bank topY fonts)"
proof (intro conjI allI impI)
  fix ops bottom
  assume "drawCompanyHeader company topY fonts logoImage = Inr (ops, bottom)"
  then show "topY < bottom" by (rule company_header_bottom)
next
  assume "logoImage = None \<or> (\<exists>img. logoImage = Some img \<and> imageWidth img \<noteq> 0)"
  then show "\<exists>ops bottom. drawCompanyHeader company topY fonts logoImage = Inr (ops, bottom)"
    by (rule company_header_returns)
next
  show "topY < snd (drawInvoiceMetaTable invoice topY fonts)"
    by (simp add: meta_table_bottom)
next
  show "topY < snd (drawPartyBlocks invoice topY fonts)"
    by (simp add: party_blocks_bottom)
next
  have "(0::rat) \<le> 15 * of_nat (length (wrapText (description (firstItem invoice)) 217
                                       (bold fonts) 10))"
    by simp
  then show "topY < snd (drawItemsSection numberToString invoice totals topY fonts)"
    unfolding items_section_bottom by linarith
next
  show "topY < snd (drawAmountSummaries invoice topY fonts)"
    by (simp add: amount_summaries_bottom less_max_iff_disj)
next
  fix ops bottom
  assume "drawTaxBreakup numberToString invoice totals topY fonts = Inr (ops, bottom)"
  then have "bottom = topY + 84
           + max 16 (of_nat (length (wrapText (taxAmountInWords invoice) (getContentWidth - 170)
                                        (normal fonts) 9)) * 11)"
    by (rule tax_breakup_bottom)
  then show "topY < bottom" by simp
next
  assume "taxRates invoice \<noteq> None"
  then obtain rates where "taxRates invoice = Some rates" by auto
  then show "\<exists>ops bottom. drawTaxBreakup numberToString invoice totals topY fonts
                          = Inr (ops, bottom)"
    by (simp add: drawTaxBreakup_def Let_def)
next
  have "topY + 59 \<le> snd (drawBankAndRemarks invoice bank topY fonts)"
    by (rule bank_and_remarks_bottom)
  then show "topY < snd (drawBankAndRemarks invoice bank topY fonts)" by simp
qed

theorem cursor_monotone_witness:
  "(\<exists>ops bottom. drawCompanyHeader sampleCompany 32 sampleFonts None = Inr (ops, bottom)
      \<and> 32 < bottom)
   \<and> (\<exists>ops bottom.
        drawTaxBreakup integerToString sampleInvoice (computeTotals sampleInvoice) 32 sampleFonts
          = Inr (ops, bottom) \<and> 32 < bottom)
   \<and> snd (drawInvoiceMetaTable sampleInvoice 32 sampleFonts) = 176
   \<and> snd (drawPartyBlocks sampleInvoice 32 sampleFonts) = 196"
proof -
  have t: "taxRates sampleInvoice \<noteq> None" by (simp add: sampleInvoice_def)
  from cursor_monotone[of sampleCompany 32 sampleFonts None sampleInvoice integerToString
         "computeTotals sampleInvoice" sampleBank] t
  show ?thesis
    by (simp add: meta_table_bottom party_blocks_bottom) blast
qed

end
